theory Spec2Isabelle
  imports Main "HOL-Library.Char_ord" "HOL-Library.List_Lexorder" "HOL-Library.Multiset"
begin

section \<open>Exceptions\<close>

text \<open>
  The exception classes of \<^verbatim>\<open>lego.py\<close>. A plain \<^verbatim>\<open>Exception\<close> carries the
  place that raised it instead of the message text; \<^verbatim>\<open>except\<close> clauses of the
  source dispatch on the class only.
\<close>

datatype reason =
    MaxMustMatchOrExceedMin
  | MinMustBeNonNegative
  | CantSubtract
  | CantCommon
  | WrongMultiplicandType
  | NotAMult
  | CantPutInPattern

datatype error =
    MatchFailureException
  | NoRegexException
  | NoCommonMultiplicandException
  | NoMultPrefixException
  | NoMultSuffixException
  | Exception reason
  | AttributeError
  | ImportError

section \<open>Multipliers\<close>

text \<open>
  A multiplier holds \<^verbatim>\<open>min\<close> and \<^verbatim>\<open>max\<close>, with \<^verbatim>\<open>None\<close> for infinity.
  The attributes \<^verbatim>\<open>mandatory\<close> and \<^verbatim>\<open>optional\<close> are computed once by
  \<^verbatim>\<open>__init__\<close> from \<^verbatim>\<open>min\<close> and \<^verbatim>\<open>max\<close> and never change, so they are
  functions of the value here; \<^verbatim>\<open>__eq__\<close> compares \<^verbatim>\<open>min\<close> and \<^verbatim>\<open>max\<close>.
\<close>

datatype multiplier = Multiplier (min_m: "int option") (max_m: "int option")

fun mandatory :: "multiplier \<Rightarrow> int option" where
  "mandatory (Multiplier mn mx) = mn"

fun optional :: "multiplier \<Rightarrow> int option" where
  "optional (Multiplier None mx) = None"
| "optional (Multiplier (Some a) None) = None"
| "optional (Multiplier (Some a) (Some b)) = Some (b - a)"

text \<open>\<^verbatim>\<open>multiplier.__init__\<close>: the checks on the bounds, in the order of the source.\<close>

fun multiplier_init :: "int option \<Rightarrow> int option \<Rightarrow> error + multiplier" where
  "multiplier_init None None = Inr (Multiplier None None)"
| "multiplier_init None (Some b) = Inl (Exception MaxMustMatchOrExceedMin)"
| "multiplier_init (Some a) None =
     (if a < 0 then Inl (Exception MinMustBeNonNegative) else Inr (Multiplier (Some a) None))"
| "multiplier_init (Some a) (Some b) =
     (if a < 0 then Inl (Exception MinMustBeNonNegative)
      else if b < a then Inl (Exception MaxMustMatchOrExceedMin)
      else Inr (Multiplier (Some a) (Some b)))"

definition zero_m :: multiplier where "zero_m = Multiplier (Some 0) (Some 0)"
definition qm :: multiplier where "qm = Multiplier (Some 0) (Some 1)"
definition one_m :: multiplier where "one_m = Multiplier (Some 1) (Some 1)"
definition star :: multiplier where "star = Multiplier (Some 0) None"
definition plus_m :: multiplier where "plus_m = Multiplier (Some 1) None"
definition inf_m :: multiplier where "inf_m = Multiplier None None"

text \<open>\<^verbatim>\<open>multiplier.__mul__\<close> and \<^verbatim>\<open>multiplier.__add__\<close>.\<close>

definition multiplier_mul :: "multiplier \<Rightarrow> multiplier \<Rightarrow> error + multiplier" where
  "multiplier_mul self other =
     (let mn = (case (min_m self, min_m other) of
                  (Some a, Some b) \<Rightarrow> Some (a * b) | _ \<Rightarrow> None);
          mx = (case (max_m self, max_m other) of
                  (Some a, Some b) \<Rightarrow> Some (a * b) | _ \<Rightarrow> None)
      in multiplier_init mn mx)"

definition multiplier_add :: "multiplier \<Rightarrow> multiplier \<Rightarrow> error + multiplier" where
  "multiplier_add self other =
     (let mn = (case (min_m self, min_m other) of
                  (Some a, Some b) \<Rightarrow> Some (a + b) | _ \<Rightarrow> None);
          mx = (case (max_m self, max_m other) of
                  (Some a, Some b) \<Rightarrow> Some (a + b) | _ \<Rightarrow> None)
      in multiplier_init mn mx)"

text \<open>
  \<^verbatim>\<open>multiplier.__sub__\<close>. The two component computations and the reconstruction
  are written out as in the source; each \<^verbatim>\<open>raise\<close> is a branch.
\<close>

definition multiplier_sub :: "multiplier \<Rightarrow> multiplier \<Rightarrow> error + multiplier" where
  "multiplier_sub self other =
     (case (case mandatory other of
              None \<Rightarrow> (case mandatory self of
                          None \<Rightarrow> Inr (Some 0)
                        | Some a \<Rightarrow> Inl (Exception CantSubtract))
            | Some b \<Rightarrow> (case mandatory self of
                          None \<Rightarrow> Inr None
                        | Some a \<Rightarrow> Inr (Some (a - b)))) of
        Inl e \<Rightarrow> Inl e
      | Inr newMandatory \<Rightarrow>
     (case (case optional other of
              None \<Rightarrow> (case optional self of
                          None \<Rightarrow> Inr (Some 0)
                        | Some a \<Rightarrow> Inl (Exception CantSubtract))
            | Some b \<Rightarrow> (case optional self of
                          None \<Rightarrow> Inr None
                        | Some a \<Rightarrow> Inr (Some (a - b)))) of
        Inl e \<Rightarrow> Inl e
      | Inr newOptional \<Rightarrow>
     (case newMandatory of
        None \<Rightarrow> (case newOptional of
                    None \<Rightarrow> multiplier_init None None
                  | Some k \<Rightarrow> Inl (Exception CantSubtract))
      | Some m \<Rightarrow> (case newOptional of
                    None \<Rightarrow> multiplier_init (Some m) None
                  | Some k \<Rightarrow> multiplier_init (Some m) (Some (m + k))))))"

text \<open>\<^verbatim>\<open>multiplier.__and__\<close>, the common part of two multipliers.\<close>

definition multiplier_and :: "multiplier \<Rightarrow> multiplier \<Rightarrow> error + multiplier" where
  "multiplier_and self other =
     (let commonMandatory =
            (case mandatory self of
               None \<Rightarrow> (case mandatory other of None \<Rightarrow> None | Some b \<Rightarrow> Some b)
             | Some a \<Rightarrow> (case mandatory other of None \<Rightarrow> Some a | Some b \<Rightarrow> Some (min a b)));
          commonOptional =
            (case optional self of
               None \<Rightarrow> (case optional other of None \<Rightarrow> None | Some b \<Rightarrow> Some b)
             | Some a \<Rightarrow> (case optional other of None \<Rightarrow> Some a | Some b \<Rightarrow> Some (min a b)))
      in case commonMandatory of
           None \<Rightarrow> (case commonOptional of
                       None \<Rightarrow> multiplier_init None None
                     | Some k \<Rightarrow> Inl (Exception CantCommon))
         | Some m \<Rightarrow> (case commonOptional of
                       None \<Rightarrow> multiplier_init (Some m) None
                     | Some k \<Rightarrow> multiplier_init (Some m) (Some (m + k))))"

text \<open>
  The multipliers the program can build: the values \<^verbatim>\<open>multiplier.__init__\<close>
  returns.
\<close>

definition valid_multiplier :: "multiplier \<Rightarrow> bool" where
  "valid_multiplier m = (multiplier_init (min_m m) (max_m m) = Inr m)"

text \<open>
  The arithmetic of the specification on \<open>\<nat> \<union> {\<infinity>}\<close>, with \<open>None\<close> for
  \<open>\<infinity>\<close>: the componentwise difference (\<open>\<infinity> - \<infinity> = 0\<close>, \<open>\<infinity> - n = \<infinity>\<close>,
  \<open>n - \<infinity>\<close> undefined), the minimum with \<open>\<infinity>\<close> above every number, and the
  absorbing sum.
\<close>

fun spec_minus :: "int option \<Rightarrow> int option \<Rightarrow> error + int option" where
  "spec_minus None None = Inr (Some 0)"
| "spec_minus None (Some m) = Inr None"
| "spec_minus (Some n) None = Inl (Exception CantSubtract)"
| "spec_minus (Some n) (Some m) = Inr (Some (n - m))"

fun spec_min :: "int option \<Rightarrow> int option \<Rightarrow> int option" where
  "spec_min None y = y"
| "spec_min x None = x"
| "spec_min (Some a) (Some b) = Some (min a b)"

fun spec_plus :: "int option \<Rightarrow> int option \<Rightarrow> int option" where
  "spec_plus (Some a) (Some b) = Some (a + b)"
| "spec_plus x y = None"

text \<open>
  The (mandatory, optional) view in the words of the specification: mandatory is min
  and optional is \<open>max - min\<close> with \<open>\<infinity> - n = \<infinity>\<close> and \<open>\<infinity> - \<infinity> = 0\<close>, so that the
  optional of \<open>(\<infinity>, \<infinity>)\<close> is \<open>0\<close> (the attribute \<open>optional\<close> of the code is \<open>\<infinity>\<close>
  there). The reconstruction of the specification: \<open>(\<infinity>, \<infinity>)\<close> when the mandatory
  is \<open>\<infinity>\<close> and the optional is \<open>0\<close>, otherwise min is the mandatory and max is the
  mandatory plus the optional.
\<close>

definition spec_mandatory :: "multiplier \<Rightarrow> int option" where
  "spec_mandatory m = min_m m"

definition spec_optional :: "multiplier \<Rightarrow> error + int option" where
  "spec_optional m = spec_minus (max_m m) (min_m m)"

definition spec_reconstruct :: "int option \<Rightarrow> int option \<Rightarrow> multiplier" where
  "spec_reconstruct newMandatory newOptional =
     (if newMandatory = None \<and> newOptional = Some 0 then Multiplier None None
      else Multiplier newMandatory (spec_plus newMandatory newOptional))"

definition spec_and :: "multiplier \<Rightarrow> multiplier \<Rightarrow> error + multiplier" where
  "spec_and a b =
     (case spec_optional a of
        Inl e \<Rightarrow> Inl e
      | Inr oa \<Rightarrow>
          (case spec_optional b of
             Inl e \<Rightarrow> Inl e
           | Inr ob \<Rightarrow>
               Inr (spec_reconstruct (spec_min (spec_mandatory a) (spec_mandatory b))
                                     (spec_min oa ob))))"

section \<open>Character classes\<close>

text \<open>
  A charclass is a frozenset of symbols and the flag \<^verbatim>\<open>negated\<close>. Symbols are
  characters here, as everywhere the source prints or parses them; the constructor's
  only check, that \<^verbatim>\<open>None\<close> is no symbol, holds of every character.
\<close>

datatype charclass = Charclass (chars: "char set") (negated: bool)

text \<open>\<^verbatim>\<open>charclass.__invert__\<close>.\<close>

definition charclass_invert :: "charclass \<Rightarrow> charclass" where
  "charclass_invert self = Charclass (chars self) (\<not> negated self)"

text \<open>
  \<^verbatim>\<open>charclass.__or__\<close>, \<^verbatim>\<open>__sub__\<close>, \<^verbatim>\<open>__and__\<close> and \<^verbatim>\<open>issubset\<close> on two
  charclasses. \<^verbatim>\<open>~charclass(X)\<close> is \<open>charclass_invert (Charclass X False)\<close>.
\<close>

definition charclass_or :: "charclass \<Rightarrow> charclass \<Rightarrow> charclass" where
  "charclass_or self other =
     (if negated self then
        (if negated other
         then charclass_invert (Charclass (chars self \<inter> chars other) False)
         else charclass_invert (Charclass (chars self - chars other) False))
      else if negated other
        then charclass_invert (Charclass (chars other - chars self) False)
      else Charclass (chars self \<union> chars other) False)"

definition charclass_sub :: "charclass \<Rightarrow> charclass \<Rightarrow> charclass" where
  "charclass_sub self other =
     (if negated self then
        (if negated other
         then Charclass (chars other - chars self) False
         else charclass_invert (Charclass (chars self \<union> chars other) False))
      else if negated other
        then Charclass (chars self \<inter> chars other) False
      else Charclass (chars self - chars other) False)"

definition charclass_and :: "charclass \<Rightarrow> charclass \<Rightarrow> charclass" where
  "charclass_and self other =
     (if negated self then
        (if negated other
         then charclass_invert (Charclass (chars self \<union> chars other) False)
         else Charclass (chars other - chars self) False)
      else if negated other
        then Charclass (chars self - chars other) False
      else Charclass (chars self \<inter> chars other) False)"

definition issubset :: "charclass \<Rightarrow> charclass \<Rightarrow> bool" where
  "issubset self other =
     (if negated self then
        (if negated other then chars other \<subseteq> chars self else False)
      else if negated other
        then chars self \<inter> chars other = {}
      else chars self \<subseteq> chars other)"


text \<open>The module constants \<^verbatim>\<open>w\<close>, \<^verbatim>\<open>d\<close>, \<^verbatim>\<open>s\<close>, \<^verbatim>\<open>W\<close>, \<^verbatim>\<open>D\<close>, \<^verbatim>\<open>S\<close>, \<^verbatim>\<open>dot\<close>.\<close>

definition w_chars :: string where
  "w_chars = ''0123456789ABCDEFGHIJKLMNOPQRSTUVWXYZ_abcdefghijklmnopqrstuvwxyz''"

definition s_chars :: string where
  "s_chars = [CHR 0x09, CHR 0x0A, CHR 0x0B, CHR 0x0C, CHR 0x0D, CHR '' '']"

definition w_class :: charclass where "w_class = Charclass (set w_chars) False"
definition d_class :: charclass where "d_class = Charclass (set ''0123456789'') False"
definition s_class :: charclass where "s_class = Charclass (set s_chars) False"
definition W_class :: charclass where "W_class = charclass_invert (Charclass (set w_chars) False)"
definition D_class :: charclass where "D_class = charclass_invert (Charclass (set ''0123456789'') False)"
definition S_class :: charclass where "S_class = charclass_invert (Charclass (set s_chars) False)"
definition dot :: charclass where "dot = charclass_invert (Charclass {} False)"

section \<open>Lego pieces as Python values\<close>

text \<open>
  The source is dynamically typed: \<^verbatim>\<open>reduce\<close> returns a piece of any kind, and the
  constructors test \<^verbatim>\<open>type(x)\<close>. A value is a charclass, a mult, a conc, a pattern,
  or a class object (the name \<^verbatim>\<open>conc\<close> itself is a value of type \<^verbatim>\<open>type\<close>).

  A pattern holds a frozenset of concs. It is kept as the list of its elements in
  the order in which the frozenset iterates; \<open>frozenset\<close> below builds such a list
  from any list by dropping the repeated elements.
\<close>

datatype kind = KCharclass | KMult | KConc | KPattern | KType

datatype pyval =
    CharclassV (charclass_of: charclass)
  | Mult (multiplicand: pyval) (multiplier: multiplier)
  | Conc (mults: "pyval list")
  | Pattern (concs: "pyval list")
  | ClassObj kind

fun type_of :: "pyval \<Rightarrow> kind" where
  "type_of (CharclassV c) = KCharclass"
| "type_of (Mult x m) = KMult"
| "type_of (Conc ms) = KConc"
| "type_of (Pattern cs) = KPattern"
| "type_of (ClassObj k) = KType"

text \<open>
  \<^verbatim>\<open>__eq__\<close> of the four classes: equal types and equal contents. A tuple of mults
  is compared element by element, in order. Two frozensets are compared as the
  built-in does: they are equal when they have the same number of elements and every
  element of the first is an element of the second.
\<close>

fun py_eq :: "pyval \<Rightarrow> pyval \<Rightarrow> bool"
  and tuple_eq :: "pyval list \<Rightarrow> pyval list \<Rightarrow> bool"
where
  "py_eq (CharclassV a) (CharclassV b) = (a = b)"
| "py_eq (Mult x m) (Mult y k) = (py_eq x y \<and> m = k)"
| "py_eq (Conc xs) (Conc ys) = tuple_eq xs ys"
| "py_eq (Pattern xs) (Pattern ys) =
     (length xs = length ys \<and> list_all (\<lambda>x. list_ex (\<lambda>y. py_eq x y) ys) xs)"
| "py_eq (ClassObj a) (ClassObj b) = (a = b)"
| "py_eq x y = False"
| "tuple_eq [] [] = True"
| "tuple_eq (x # xs) (y # ys) = (py_eq x y \<and> tuple_eq xs ys)"
| "tuple_eq xs ys = False"

text \<open>\<^verbatim>\<open>x in a\<close> and \<^verbatim>\<open>a == b\<close> for frozensets of lego pieces.\<close>

definition contains :: "pyval \<Rightarrow> pyval list \<Rightarrow> bool" where
  "contains x a = list_ex (\<lambda>y. py_eq x y) a"

definition frozenset_eq :: "pyval list \<Rightarrow> pyval list \<Rightarrow> bool" where
  "frozenset_eq a b = py_eq (Pattern a) (Pattern b)"

text \<open>\<^verbatim>\<open>frozenset(xs)\<close>: a later element equal to an earlier one is dropped.\<close>

definition frozenset :: "pyval list \<Rightarrow> pyval list" where
  "frozenset xs = foldl (\<lambda>acc x. if contains x acc then acc else acc @ [x]) [] xs"

text \<open>\<^verbatim>\<open>a - {x}\<close> on frozensets.\<close>

definition frozenset_remove :: "pyval list \<Rightarrow> pyval \<Rightarrow> pyval list" where
  "frozenset_remove a x = filter (\<lambda>y. \<not> py_eq y x) a"

text \<open>The constructors \<^verbatim>\<open>mult.__init__\<close>, \<^verbatim>\<open>conc.__init__\<close>, \<^verbatim>\<open>pattern.__init__\<close>.\<close>

definition mult_init :: "pyval \<Rightarrow> multiplier \<Rightarrow> error + pyval" where
  "mult_init mcand x =
     (if type_of mcand \<notin> {KCharclass, KPattern}
      then Inl (Exception WrongMultiplicandType)
      else Inr (Mult mcand x))"

definition conc_init :: "pyval list \<Rightarrow> error + pyval" where
  "conc_init ms =
     (if list_ex (\<lambda>x. type_of x \<noteq> KMult) ms
      then Inl (Exception NotAMult)
      else Inr (Conc ms))"

definition pattern_init :: "pyval list \<Rightarrow> error + pyval" where
  "pattern_init cs =
     (if list_ex (\<lambda>x. type_of x \<noteq> KConc) cs
      then Inl (Exception CantPutInPattern)
      else Inr (Pattern (frozenset cs)))"

definition emptystring :: pyval where "emptystring = Conc []"
definition nothing :: pyval where "nothing = Pattern []"

text \<open>
  The values the constructors can build: every multiplicand a charclass or a
  pattern, every element of a conc a mult, every element of a pattern a conc, every
  multiplier accepted by its constructor, and no conc twice in a pattern.
\<close>

fun distinct_eq :: "pyval list \<Rightarrow> bool" where
  "distinct_eq [] = True"
| "distinct_eq (x # xs) = (\<not> contains x xs \<and> distinct_eq xs)"

fun well_formed :: "pyval \<Rightarrow> bool" where
  "well_formed (CharclassV c) = True"
| "well_formed (Mult x m) = (type_of x \<in> {KCharclass, KPattern} \<and> well_formed x \<and> valid_multiplier m)"
| "well_formed (Conc ms) = list_all (\<lambda>m. type_of m = KMult \<and> well_formed m) ms"
| "well_formed (Pattern cs) = (list_all (\<lambda>c. type_of c = KConc \<and> well_formed c) cs \<and> distinct_eq cs)"
| "well_formed (ClassObj k) = False"

section \<open>Rendering\<close>

text \<open>
  The tables of the module. \<^verbatim>\<open>allSpecial\<close>, \<^verbatim>\<open>classSpecial\<close> and
  \<^verbatim>\<open>allowableRanges\<close> are sets in the source and are only searched; the
  dictionaries keep their insertion order.
\<close>

definition bs :: char where "bs = CHR 0x5C"

definition escapes :: "(char \<times> string) list" where
  "escapes =
     [(CHR 0x09, [bs, CHR ''t'']),
      (CHR 0x0A, [bs, CHR ''n'']),
      (CHR 0x0B, [bs, CHR ''v'']),
      (CHR 0x0C, [bs, CHR ''f'']),
      (CHR 0x0D, [bs, CHR ''r''])]"

definition allSpecial :: string where "allSpecial = bs # ''[]|().?*+{}''"

definition classSpecial :: string where "classSpecial = bs # ''[]^-''"

definition allowableRanges :: "string list" where
  "allowableRanges =
     [''ABCDEFGHIJKLMNOPQRSTUVWXYZ'', ''abcdefghijklmnopqrstuvwxyz'', ''0123456789'']"

definition shorthand :: "(charclass \<times> string) list" where
  "shorthand =
     [(w_class, [bs, CHR ''w'']), (d_class, [bs, CHR ''d'']), (s_class, [bs, CHR ''s'']),
      (W_class, [bs, CHR ''W'']), (D_class, [bs, CHR ''D'']), (S_class, [bs, CHR ''S'']),
      (dot, ''.'')]"

definition symbolic :: "(multiplier \<times> string) list" where
  "symbolic = [(qm, ''?''), (one_m, ''''), (star, ''*''), (plus_m, ''+'')]"

text \<open>\<^verbatim>\<open>str.index\<close>, \<^verbatim>\<open>str.join\<close> and \<^verbatim>\<open>str(n)\<close> for an integer.\<close>

fun index :: "'a list \<Rightarrow> 'a \<Rightarrow> nat" where
  "index [] x = 0"
| "index (y # ys) x = (if x = y then 0 else Suc (index ys x))"

fun join :: "string \<Rightarrow> string list \<Rightarrow> string" where
  "join sep [] = []"
| "join sep [x] = x"
| "join sep (x # y # ys) = x @ sep @ join sep (y # ys)"

fun str_nat :: "nat \<Rightarrow> string" where
  "str_nat n =
     (if n < 10 then [char_of (48 + n)]
      else str_nat (n div 10) @ [char_of (48 + n mod 10)])"

definition str_int :: "int \<Rightarrow> string" where
  "str_int i = (if i < 0 then CHR ''-'' # str_nat (nat (- i)) else str_nat (nat i))"

text \<open>\<^verbatim>\<open>charclass.escape\<close> with its local functions; the loop state is
  \<^verbatim>\<open>(output, currentRange)\<close>.\<close>

definition escapeChar :: "char \<Rightarrow> string" where
  "escapeChar char =
     (if char \<in> set classSpecial then [bs, char]
      else case map_of escapes char of Some e \<Rightarrow> e | None \<Rightarrow> [char])"

definition recordRange :: "string \<times> string \<Rightarrow> string \<times> string" where
  "recordRange st =
     (case st of (output, currentRange) \<Rightarrow>
        (if length currentRange \<in> {0, 1, 2, 3}
         then (output @ concat (map escapeChar currentRange), [])
         else (output @ escapeChar (hd currentRange) @ ''-'' @ escapeChar (last currentRange), [])))"

definition escape_step :: "string \<times> string \<Rightarrow> char \<Rightarrow> string \<times> string" where
  "escape_step st char =
     (case (if 0 < length (snd st) then
              (case find (\<lambda>allowableRange. char \<in> set allowableRange) allowableRanges of
                 None \<Rightarrow> recordRange st
               | Some superRange \<Rightarrow>
                   (let i = index superRange char in
                    if i = 0 \<or> superRange ! (i - 1) \<noteq> last (snd st)
                    then recordRange st else st))
            else st) of
        (output, currentRange) \<Rightarrow> (output, currentRange @ [char]))"

definition escape :: "charclass \<Rightarrow> string" where
  "escape self =
     fst (recordRange (foldl escape_step ([], []) (sorted_list_of_set (chars self))))"

text \<open>\<^verbatim>\<open>charclass.regex\<close>.\<close>

definition charclass_regex :: "charclass \<Rightarrow> error + string" where
  "charclass_regex self =
     (case map_of shorthand self of
        Some sh \<Rightarrow> Inr sh
      | None \<Rightarrow>
          if card (chars self) < 1 then Inl NoRegexException
          else if negated self then Inr (''[^'' @ escape self @ '']'')
          else if card (chars self) = 1 then
            (let char = hd (sorted_list_of_set (chars self)) in
             case map_of escapes char of
               Some e \<Rightarrow> Inr e
             | None \<Rightarrow> if char \<in> set allSpecial then Inr [bs, char] else Inr [char])
          else Inr (''['' @ escape self @ '']''))"

text \<open>\<^verbatim>\<open>multiplier.regex\<close>.\<close>

definition multiplier_regex :: "multiplier \<Rightarrow> error + string" where
  "multiplier_regex self =
     (if max_m self = Some 0 \<or> min_m self = None then Inl NoRegexException
      else case map_of symbolic self of
        Some sy \<Rightarrow> Inr sy
      | None \<Rightarrow>
          (case max_m self of
             None \<Rightarrow> Inr (''{'' @ str_int (the (min_m self)) @ '',}'')
           | Some mx \<Rightarrow>
               if min_m self = max_m self
               then Inr (''{'' @ str_int (the (min_m self)) @ ''}'')
               else Inr (''{'' @ str_int (the (min_m self)) @ '','' @ str_int mx @ ''}'')))"

text \<open>A comprehension over calls that may raise: the first exception ends it.\<close>

fun sequence :: "(error + 'a) list \<Rightarrow> error + 'a list" where
  "sequence [] = Inr []"
| "sequence (Inl e # rs) = Inl e"
| "sequence (Inr v # rs) = (case sequence rs of Inl e \<Rightarrow> Inl e | Inr vs \<Rightarrow> Inr (v # vs))"

text \<open>
  \<^verbatim>\<open>mult.regex\<close>, \<^verbatim>\<open>conc.regex\<close> and \<^verbatim>\<open>pattern.regex\<close>, dispatched on the
  kind of the value as the method call does.
\<close>

fun regex :: "pyval \<Rightarrow> error + string" where
  "regex (CharclassV c) = charclass_regex c"
| "regex (Mult x m) =
     (case (if type_of x = KPattern
            then (case regex x of Inl e \<Rightarrow> Inl e | Inr r \<Rightarrow> Inr (''('' @ r @ '')''))
            else regex x) of
        Inl e \<Rightarrow> Inl e
      | Inr output \<Rightarrow>
          (case multiplier_regex m of
             Inl e \<Rightarrow> Inl e
           | Inr suffix \<Rightarrow>
               if min_m m = max_m m
                  \<and> int (length output) * the (min_m m) \<le> int (length output) + int (length suffix)
               then Inr (output @ concat (replicate (nat (the (min_m m) - 1)) output))
               else Inr (output @ suffix)))"
| "regex (Conc ms) =
     (case sequence (map regex ms) of Inl e \<Rightarrow> Inl e | Inr rs \<Rightarrow> Inr (concat rs))"
| "regex (Pattern cs) =
     (if length cs < 1 then Inl NoRegexException
      else case sequence (map regex cs) of
             Inl e \<Rightarrow> Inl e
           | Inr rs \<Rightarrow> Inr (join ''|'' (sort rs)))"
| "regex (ClassObj k) = Inl AttributeError"

text \<open>
  The terms the specification calls unprintable: a term that is, or contains, the
  empty charclass (no symbols, not negated), a multiplier with max \<open>0\<close> or min
  \<open>\<infinity>\<close>, or the empty pattern.
\<close>

definition unprintable_multiplier :: "multiplier \<Rightarrow> bool" where
  "unprintable_multiplier m = (max_m m = Some 0 \<or> min_m m = None)"

fun unprintable :: "pyval \<Rightarrow> bool" where
  "unprintable (CharclassV c) = (chars c = {} \<and> \<not> negated c)"
| "unprintable (Mult x m) = (unprintable x \<or> unprintable_multiplier m)"
| "unprintable (Conc ms) = list_ex unprintable ms"
| "unprintable (Pattern cs) = (cs = [] \<or> list_ex unprintable cs)"
| "unprintable (ClassObj k) = False"

section \<open>Hashing\<close>

text \<open>
  Each class defines \<^verbatim>\<open>__hash__\<close> through a built-in:
  \<^verbatim>\<open>tuple.__hash__((self.chars, self.negated))\<close> for a charclass,
  \<^verbatim>\<open>tuple.__hash__((self.min, self.max))\<close> for a multiplier,
  \<^verbatim>\<open>tuple.__hash__((self.multiplicand, self.multiplier))\<close> for a mult,
  \<^verbatim>\<open>tuple.__hash__(self.mults)\<close> for a conc and
  \<^verbatim>\<open>frozenset.__hash__(self.concs)\<close> for a pattern.

  The built-ins are not part of \<^verbatim>\<open>lego.py\<close> and are parameters: the hash of a
  symbol, of a boolean, of an integer or \<^verbatim>\<open>None\<close> and of a class object; the hash of
  a tuple, which combines the hashes of its elements in their order; and the hash of a
  frozenset, which combines the hashes of the elements it holds without regard to any
  order, an element held twice counting twice. Both call \<^verbatim>\<open>__hash__\<close> of the
  elements.
\<close>

record builtin_hash =
  hash_str :: "char \<Rightarrow> int"
  hash_bool :: "bool \<Rightarrow> int"
  hash_int :: "int option \<Rightarrow> int"
  hash_type :: "kind \<Rightarrow> int"
  tuple_hash :: "int list \<Rightarrow> int"
  frozenset_hash :: "int multiset \<Rightarrow> int"

definition charclass_hash :: "builtin_hash \<Rightarrow> charclass \<Rightarrow> int" where
  "charclass_hash B self =
     tuple_hash B [frozenset_hash B (mset (map (hash_str B) (sorted_list_of_set (chars self)))),
                   hash_bool B (negated self)]"

definition multiplier_hash :: "builtin_hash \<Rightarrow> multiplier \<Rightarrow> int" where
  "multiplier_hash B self = tuple_hash B [hash_int B (min_m self), hash_int B (max_m self)]"

fun py_hash :: "builtin_hash \<Rightarrow> pyval \<Rightarrow> int" where
  "py_hash B (CharclassV c) = charclass_hash B c"
| "py_hash B (Mult x m) = tuple_hash B [py_hash B x, multiplier_hash B m]"
| "py_hash B (Conc ms) = tuple_hash B (map (py_hash B) ms)"
| "py_hash B (Pattern cs) = frozenset_hash B (mset (map (py_hash B) cs))"
| "py_hash B (ClassObj k) = hash_type B k"

text \<open>
  Built-in hashes to compute with: a polynomial in the hashes of a tuple's elements,
  and the sum of the hashes of a frozenset's elements together with their number.
\<close>

definition sample_hash :: builtin_hash where
  "sample_hash =
     \<lparr> hash_str = (\<lambda>c. int (of_char c)),
       hash_bool = (\<lambda>b. if b then 1 else 0),
       hash_int = (\<lambda>x. case x of None \<Rightarrow> - 1 | Some i \<Rightarrow> i),
       hash_type = (\<lambda>k. 0),
       tuple_hash = foldl (\<lambda>acc h. 31 * acc + h) 7,
       frozenset_hash = (\<lambda>M. 3 * sum_mset M + int (size M)) \<rparr>"

section \<open>Intersection of patterns\<close>

text \<open>
  \<^verbatim>\<open>pattern.alphabet\<close>: the symbols of every charclass in the pattern. Only a
  pattern has the method.
\<close>

fun symbols :: "pyval \<Rightarrow> char set" where
  "symbols (CharclassV c) = chars c"
| "symbols (Mult x m) = symbols x"
| "symbols (Conc ms) = \<Union> (set (map symbols ms))"
| "symbols (Pattern cs) = \<Union> (set (map symbols cs))"
| "symbols (ClassObj k) = {}"

definition alphabet :: "pyval \<Rightarrow> error + char set" where
  "alphabet self = (if type_of self = KPattern then Inr (symbols self) else Inl AttributeError)"

text \<open>
  \<^verbatim>\<open>pattern.__and__\<close>. The finite state machines are another module: the
  parameter \<open>fsm_intersection alphabet self other\<close> stands for
  \<^verbatim>\<open>(self.fsm(alphabet) & other.fsm(alphabet)).pattern()\<close>. The alphabet gets
  \<^verbatim>\<open>None\<close> as the symbol for everything else. The second bulk-up of the source
  passes the class \<^verbatim>\<open>conc\<close> to \<^verbatim>\<open>pattern\<close>, not the value.
\<close>

definition pattern_and ::
  "(char option set \<Rightarrow> pyval \<Rightarrow> pyval \<Rightarrow> error + pyval) \<Rightarrow> pyval \<Rightarrow> pyval \<Rightarrow> error + pyval"
where
  "pattern_and fsm_intersection self other =
     (case (if type_of other = KMult then conc_init [other] else Inr other) of
        Inl e \<Rightarrow> Inl e
      | Inr other1 \<Rightarrow>
     (case (if type_of other1 = KConc then pattern_init [ClassObj KConc] else Inr other1) of
        Inl e \<Rightarrow> Inl e
      | Inr other2 \<Rightarrow>
     (case alphabet self of
        Inl e \<Rightarrow> Inl e
      | Inr a1 \<Rightarrow>
     (case alphabet other2 of
        Inl e \<Rightarrow> Inl e
      | Inr a2 \<Rightarrow>
          fsm_intersection (insert None (Some ` (a1 \<union> a2))) self other2))))"

text \<open>
  What the specification asks of \<^verbatim>\<open>&\<close>: bulk the value up to a pattern
  (charclass to mult to conc to pattern), then intersect the machines.
\<close>

definition spec_bulk_up :: "pyval \<Rightarrow> error + pyval" where
  "spec_bulk_up other =
     (case (if type_of other = KCharclass then mult_init other one_m else Inr other) of
        Inl e \<Rightarrow> Inl e
      | Inr other1 \<Rightarrow>
     (case (if type_of other1 = KMult then conc_init [other1] else Inr other1) of
        Inl e \<Rightarrow> Inl e
      | Inr other2 \<Rightarrow>
          if type_of other2 = KConc then pattern_init [other2] else Inr other2))"

section \<open>Parsing\<close>

text \<open>
  The matchers take the string and an index and return the parsed value with the
  index after it, or raise \<^verbatim>\<open>MatchFailureException\<close>.
  \<open>orelse r k\<close> is \<^verbatim>\<open>try: return r; except MatchFailureException: pass\<close> followed
  by \<open>k\<close>: any other exception leaves.
\<close>

definition orelse :: "error + 'a \<Rightarrow> error + 'a \<Rightarrow> error + 'a" where
  "orelse r k = (case r of Inl e \<Rightarrow> (if e = MatchFailureException then k else Inl e) | Inr v \<Rightarrow> Inr v)"

text \<open>One statement after another: an exception of the first ends the sequence.\<close>

definition rbind :: "error + 'a \<Rightarrow> ('a \<Rightarrow> error + 'b) \<Rightarrow> error + 'b" where
  "rbind r f = (case r of Inl e \<Rightarrow> Inl e | Inr v \<Rightarrow> f v)"

definition matchStatic :: "string \<Rightarrow> nat \<Rightarrow> string \<Rightarrow> error + nat" where
  "matchStatic string i static =
     (if take (length static) (drop i string) = static
      then Inr (i + length static)
      else Inl MatchFailureException)"

text \<open>\<^verbatim>\<open>matchAny\<close> without a collection, and with one.\<close>

definition matchAny :: "string \<Rightarrow> nat \<Rightarrow> error + char \<times> nat" where
  "matchAny string i =
     (if i \<ge> length string then Inl MatchFailureException else Inr (string ! i, i + 1))"

fun matchAny_in :: "string \<Rightarrow> nat \<Rightarrow> string \<Rightarrow> error + char \<times> nat" where
  "matchAny_in string i [] = Inl MatchFailureException"
| "matchAny_in string i (char # collection) =
     (case matchStatic string i [char] of
        Inr j \<Rightarrow> Inr (char, j)
      | Inl e \<Rightarrow> matchAny_in string i collection)"

text \<open>
  The loops \<^verbatim>\<open>for key in table: try: return key, matchStatic(string, i, table[key])\<close>
  of the matchers, over a list of keys with their texts.
\<close>

fun match_table :: "string \<Rightarrow> nat \<Rightarrow> ('a \<times> string) list \<Rightarrow> error + 'a \<times> nat" where
  "match_table string i [] = Inl MatchFailureException"
| "match_table string i ((key, static) # table) =
     (case matchStatic string i static of
        Inr j \<Rightarrow> Inr (key, j)
      | Inl e \<Rightarrow> match_table string i table)"

text \<open>\<^verbatim>\<open>charclass.matchInternalChar\<close> and \<^verbatim>\<open>charclass.matchRangeInternal\<close>.\<close>

definition matchInternalChar :: "string \<Rightarrow> nat \<Rightarrow> error + char \<times> nat" where
  "matchInternalChar string i =
     orelse (match_table string i escapes)
    (orelse (match_table string i (map (\<lambda>char. (char, [bs, char])) classSpecial))
       (case matchAny string i of
          Inl e \<Rightarrow> Inl e
        | Inr (char, j) \<Rightarrow>
            if char \<in> set classSpecial then Inl MatchFailureException else Inr (char, j)))"

definition matchRangeInternal :: "string \<Rightarrow> nat \<Rightarrow> error + string \<times> nat" where
  "matchRangeInternal string i =
     (case matchInternalChar string i of
        Inl e \<Rightarrow> Inl e
      | Inr (firstChar, i1) \<Rightarrow>
          orelse
            (case matchStatic string i1 ''-'' of
               Inl e \<Rightarrow> Inl e
             | Inr j \<Rightarrow>
                 (case matchInternalChar string j of
                    Inl e \<Rightarrow> Inl e
                  | Inr (lastChar, j2) \<Rightarrow>
                      (case find (\<lambda>allowableRange. firstChar \<in> set allowableRange)
                              allowableRanges of
                         None \<Rightarrow> Inl MatchFailureException
                       | Some allowableRange \<Rightarrow>
                           if lastChar \<notin> set allowableRange then Inl MatchFailureException
                           else
                             (let firstIndex = index allowableRange firstChar;
                                  lastIndex = index allowableRange lastChar
                              in if firstIndex \<ge> lastIndex then Inl MatchFailureException
                                 else Inr (take (lastIndex + 1 - firstIndex)
                                             (drop firstIndex allowableRange), j2)))))
            (Inr ([firstChar], i1)))"

text \<open>
  Every matcher that returns has consumed at least one character; the loops of the
  source end for this reason.
\<close>

lemma matchStatic_advances:
  assumes "matchStatic string i static = Inr j" and "static \<noteq> []"
  shows "i < j \<and> j \<le> length string"
proof -
  from assms(1) have t: "take (length static) (drop i string) = static"
    and j: "j = i + length static"
    by (auto simp: matchStatic_def split: if_splits)
  have "length (take (length static) (drop i string)) = min (length static) (length string - i)"
    by simp
  with t have "length static \<le> length string - i" by (metis min.cobounded2)
  moreover from assms(2) have "0 < length static" by simp
  ultimately show ?thesis using j by linarith
qed

lemma match_table_advances:
  assumes "match_table string i table = Inr (key, j)" and "\<forall>(k, s) \<in> set table. s \<noteq> []"
  shows "i < j \<and> j \<le> length string"
  using assms
proof (induction table)
  case Nil
  then show ?case by simp
next
  case (Cons a table)
  obtain k s where a: "a = (k, s)" by (cases a)
  show ?case
  proof (cases "matchStatic string i s")
    case (Inl e)
    with Cons a show ?thesis by auto
  next
    case (Inr j')
    with Cons.prems a have "j' = j" "s \<noteq> []" by auto
    with Inr matchStatic_advances show ?thesis by blast
  qed
qed

lemma matchAny_in_advances:
  assumes "matchAny_in string i collection = Inr (c, j)"
  shows "i < j \<and> j \<le> length string"
  using assms
proof (induction collection)
  case Nil
  then show ?case by simp
next
  case (Cons a collection)
  show ?case
  proof (cases "matchStatic string i [a]")
    case (Inl e)
    with Cons show ?thesis by auto
  next
    case (Inr j')
    with Cons.prems have "j' = j" by auto
    with Inr matchStatic_advances[of string i "[a]" j] show ?thesis by simp
  qed
qed

lemma matchAny_advances:
  "matchAny string i = Inr (c, j) \<Longrightarrow> i < j \<and> j \<le> length string"
  by (auto simp: matchAny_def split: if_splits)

lemma matchInternalChar_advances:
  assumes "matchInternalChar string i = Inr (c, j)"
  shows "i < j \<and> j \<le> length string"
proof -
  have e: "\<forall>(k, s) \<in> set escapes. s \<noteq> []" by (simp add: escapes_def)
  have s: "\<forall>(k, s) \<in> set (map (\<lambda>char. (char, [bs, char])) classSpecial). s \<noteq> []" by auto
  from assms consider
      "match_table string i escapes = Inr (c, j)"
    | "match_table string i (map (\<lambda>char. (char, [bs, char])) classSpecial) = Inr (c, j)"
    | "matchAny string i = Inr (c, j)"
    by (auto simp: matchInternalChar_def orelse_def split: sum.splits if_splits prod.splits)
  then show ?thesis
  proof cases
    case 1
    from match_table_advances[OF 1 e] show ?thesis .
  next
    case 2
    from match_table_advances[OF 2 s] show ?thesis .
  next
    case 3
    then show ?thesis by (rule matchAny_advances)
  qed
qed

lemma matchRangeInternal_advances:
  assumes "matchRangeInternal string i = Inr (internal, j)"
  shows "i < j \<and> j \<le> length string"
proof -
  from assms obtain firstChar i1 where f: "matchInternalChar string i = Inr (firstChar, i1)"
    by (auto simp: matchRangeInternal_def split: sum.splits)
  from matchInternalChar_advances[OF f] have i1: "i < i1" "i1 \<le> length string" by auto
  from assms f consider "j = i1"
    | j0 lastChar where "matchStatic string i1 ''-'' = Inr j0"
        "matchInternalChar string j0 = Inr (lastChar, j)"
    by (auto simp: matchRangeInternal_def orelse_def Let_def
        split: sum.splits if_splits prod.splits option.splits)
  then show ?thesis
  proof cases
    case 1
    with i1 show ?thesis by simp
  next
    case 2
    from matchStatic_advances[OF 2(1)] have "i1 < j0" by simp
    with matchInternalChar_advances[OF 2(2)] i1 show ?thesis by simp
  qed
qed

text \<open>
  \<^verbatim>\<open>charclass.matchRangeInterior\<close>: the loop collects range items until one fails
  to match. The loop state is \<^verbatim>\<open>(i, internals)\<close>.
\<close>

function matchRangeInterior :: "string \<Rightarrow> nat \<Rightarrow> string \<Rightarrow> string \<times> nat" where
  "matchRangeInterior string i internals =
     (case matchRangeInternal string i of
        Inl e \<Rightarrow> (internals, i)
      | Inr (internal, j) \<Rightarrow> matchRangeInterior string j (internals @ internal))"
  by pat_completeness auto
termination
proof (relation "measure (\<lambda>(string, i, internals). length string - i)")
  show "wf (measure (\<lambda>(string, i, internals). length string - i))" by simp
next
  fix string :: string and i :: nat and internals :: string
    and x2 :: "string \<times> nat" and x y
  assume "matchRangeInternal string i = Inr x2" and "(x, y) = x2"
  then have "matchRangeInternal string i = Inr (x, y)" by simp
  from matchRangeInternal_advances[OF this] have "length string - y < length string - i"
    by linarith
  then show "((string, y, internals @ x), string, i, internals)
        \<in> measure (\<lambda>(string, i, internals). length string - i)" by simp
qed

text \<open>The digit loop of \<^verbatim>\<open>multiplier.matchInteger\<close>; \<^verbatim>\<open>int(digit)\<close> is the digit's value.\<close>

function matchInteger_loop :: "string \<Rightarrow> nat \<Rightarrow> int \<Rightarrow> int \<times> nat" where
  "matchInteger_loop string i integer =
     (case matchAny_in string i ''0123456789'' of
        Inl e \<Rightarrow> (integer, i)
      | Inr (digit, j) \<Rightarrow> matchInteger_loop string j (integer * 10 + (int (of_char digit) - 48)))"
  by pat_completeness auto
termination
proof (relation "measure (\<lambda>(string, i, integer). length string - i)")
  show "wf (measure (\<lambda>(string, i, integer). length string - i))" by simp
next
  fix string :: string and i :: nat and integer :: int
    and x2 :: "char \<times> nat" and x y
  assume "matchAny_in string i ''0123456789'' = Inr x2" and "(x, y) = x2"
  then have "matchAny_in string i ''0123456789'' = Inr (x, y)" by simp
  from matchAny_in_advances[OF this] have "length string - y < length string - i"
    by linarith
  then show "((string, y, integer * 10 + (int (of_char x) - 48)), string, i, integer)
        \<in> measure (\<lambda>(string, i, integer). length string - i)" by simp
qed

text \<open>
  \<^verbatim>\<open>charclass.matchNegatedRange\<close>, \<^verbatim>\<open>charclass.matchRange\<close> and
  \<^verbatim>\<open>charclass.match\<close>. \<^verbatim>\<open>charclass(chars)\<close> takes the characters of the string
  as a set.
\<close>

definition matchNegatedRange :: "string \<Rightarrow> nat \<Rightarrow> error + charclass \<times> nat" where
  "matchNegatedRange string i =
     (case matchStatic string i ''[^'' of
        Inl e \<Rightarrow> Inl e
      | Inr i1 \<Rightarrow>
          (case matchRangeInterior string i1 [] of
             (cs, i2) \<Rightarrow>
               (case matchStatic string i2 '']'' of
                  Inl e \<Rightarrow> Inl e
                | Inr i3 \<Rightarrow> Inr (charclass_invert (Charclass (set cs) False), i3))))"

definition matchRange :: "string \<Rightarrow> nat \<Rightarrow> error + charclass \<times> nat" where
  "matchRange string i =
     (case matchStatic string i ''['' of
        Inl e \<Rightarrow> Inl e
      | Inr i1 \<Rightarrow>
          (case matchRangeInterior string i1 [] of
             (cs, i2) \<Rightarrow>
               (case matchStatic string i2 '']'' of
                  Inl e \<Rightarrow> Inl e
                | Inr i3 \<Rightarrow> Inr (Charclass (set cs) False, i3))))"

definition charclass_match :: "string \<Rightarrow> nat \<Rightarrow> error + charclass \<times> nat" where
  "charclass_match string i =
     orelse (match_table string i shorthand)
    (orelse (matchNegatedRange string i)
    (orelse (matchRange string i)
    (orelse (case match_table string i escapes of
               Inl e \<Rightarrow> Inl e
             | Inr (key, j) \<Rightarrow> Inr (Charclass {key} False, j))
    (orelse (case match_table string i (map (\<lambda>char. (char, [bs, char])) allSpecial) of
               Inl e \<Rightarrow> Inl e
             | Inr (char, j) \<Rightarrow> Inr (Charclass {char} False, j))
       (case matchAny string i of
          Inl e \<Rightarrow> Inl e
        | Inr (char, j) \<Rightarrow>
            if char \<in> set allSpecial then Inl MatchFailureException
            else Inr (Charclass {char} False, j))))))"

text \<open>\<^verbatim>\<open>multiplier.matchInteger\<close> and \<^verbatim>\<open>multiplier.match\<close>.\<close>

definition matchInteger :: "string \<Rightarrow> nat \<Rightarrow> error + int \<times> nat" where
  "matchInteger string i =
     orelse (case matchStatic string i ''0'' of Inl e \<Rightarrow> Inl e | Inr j \<Rightarrow> Inr (0, j))
       (case matchAny_in string i ''123456789'' of
          Inl e \<Rightarrow> Inl e
        | Inr (digit, j) \<Rightarrow> Inr (matchInteger_loop string j (int (of_char digit) - 48)))"

definition multiplier_match :: "string \<Rightarrow> nat \<Rightarrow> error + multiplier \<times> nat" where
  "multiplier_match string i =
     orelse
       (rbind (matchStatic string i ''{'') (\<lambda>j.
        rbind (matchInteger string j) (\<lambda>(mn, j).
        rbind (matchStatic string j '','') (\<lambda>j.
        rbind (matchInteger string j) (\<lambda>(mx, j).
        rbind (matchStatic string j ''}'') (\<lambda>j.
        rbind (multiplier_init (Some mn) (Some mx)) (\<lambda>m. Inr (m, j))))))))
    (orelse
       (rbind (matchStatic string i ''{'') (\<lambda>j.
        rbind (matchInteger string j) (\<lambda>(mn, j).
        rbind (matchStatic string j '',}'') (\<lambda>j.
        rbind (multiplier_init (Some mn) None) (\<lambda>m. Inr (m, j))))))
    (orelse
       (rbind (matchStatic string i ''{'') (\<lambda>j.
        rbind (matchInteger string j) (\<lambda>(mn, j).
        rbind (matchStatic string j ''}'') (\<lambda>j.
        rbind (multiplier_init (Some mn) (Some mn)) (\<lambda>m. Inr (m, j))))))
       (match_table string i (sort_key (\<lambda>kt. - int (length (snd kt))) symbolic))))"

text \<open>
  \<^verbatim>\<open>mult.match\<close>, \<^verbatim>\<open>conc.match\<close> and \<^verbatim>\<open>pattern.match\<close> call each other
  (a parenthesis opens a pattern inside a mult). The recursion is on fuel:
  \<open>pattern_match (Suc n)\<close> is the body of \<^verbatim>\<open>pattern.match\<close> with
  \<open>pattern_match n\<close> for the call inside a parenthesis, every turn of a loop takes
  one unit as well, and \<open>None\<close> is "out of fuel". The loops carry the list they
  append to. The first argument of \<open>mult_match\<close>, \<open>conc_match\<close> and the loops is
  the function that \<^verbatim>\<open>pattern.match\<close> stands for.
\<close>

type_synonym matcher = "string \<Rightarrow> nat \<Rightarrow> (error + pyval \<times> nat) option"

definition mult_match :: "matcher \<Rightarrow> matcher" where
  "mult_match pattern_match_rec string i =
     (case (case matchStatic string i ''('' of
              Inl e \<Rightarrow> Some (Inl e)
            | Inr j \<Rightarrow>
                (case pattern_match_rec string j of
                   None \<Rightarrow> None
                 | Some (Inl e) \<Rightarrow> Some (Inl e)
                 | Some (Inr (mcand, j1)) \<Rightarrow>
                     (case matchStatic string j1 '')'' of
                        Inl e \<Rightarrow> Some (Inl e)
                      | Inr j2 \<Rightarrow> Some (Inr (mcand, j2))))) of
        None \<Rightarrow> None
      | Some r \<Rightarrow>
          (case orelse r (case charclass_match string i of
                            Inl e \<Rightarrow> Inl e
                          | Inr (c, j) \<Rightarrow> Inr (CharclassV c, j)) of
             Inl e \<Rightarrow> Some (Inl e)
           | Inr (mcand, j) \<Rightarrow>
               (case multiplier_match string j of
                  Inl e \<Rightarrow> Some (Inl e)
                | Inr (x, j3) \<Rightarrow>
                    (case mult_init mcand x of
                       Inl e \<Rightarrow> Some (Inl e)
                     | Inr m \<Rightarrow> Some (Inr (m, j3))))))"

primrec conc_loop :: "matcher \<Rightarrow> nat \<Rightarrow> string \<Rightarrow> nat \<Rightarrow> pyval list \<Rightarrow> (error + pyval \<times> nat) option"
where
  "conc_loop pattern_match_rec 0 string i ms = None"
| "conc_loop pattern_match_rec (Suc n) string i ms =
     (case mult_match pattern_match_rec string i of
        None \<Rightarrow> None
      | Some (Inl e) \<Rightarrow>
          if e = MatchFailureException
          then (case conc_init ms of Inl e \<Rightarrow> Some (Inl e) | Inr c \<Rightarrow> Some (Inr (c, i)))
          else Some (Inl e)
      | Some (Inr (x, j)) \<Rightarrow> conc_loop pattern_match_rec n string j (ms @ [x]))"

definition conc_match :: "matcher \<Rightarrow> nat \<Rightarrow> matcher" where
  "conc_match pattern_match_rec n string i = conc_loop pattern_match_rec n string i []"

primrec pattern_loop :: "matcher \<Rightarrow> nat \<Rightarrow> string \<Rightarrow> nat \<Rightarrow> pyval list \<Rightarrow> (error + pyval \<times> nat) option"
where
  "pattern_loop pattern_match_rec 0 string i cs = None"
| "pattern_loop pattern_match_rec (Suc n) string i cs =
     (case matchStatic string i ''|'' of
        Inl e \<Rightarrow> (case pattern_init cs of Inl e \<Rightarrow> Some (Inl e) | Inr p \<Rightarrow> Some (Inr (p, i)))
      | Inr j \<Rightarrow>
          (case conc_match pattern_match_rec n string j of
             None \<Rightarrow> None
           | Some (Inl e) \<Rightarrow>
               if e = MatchFailureException
               then (case pattern_init cs of Inl e \<Rightarrow> Some (Inl e) | Inr p \<Rightarrow> Some (Inr (p, j)))
               else Some (Inl e)
           | Some (Inr (x, j1)) \<Rightarrow> pattern_loop pattern_match_rec n string j1 (cs @ [x])))"

definition pattern_match_body :: "matcher \<Rightarrow> nat \<Rightarrow> matcher" where
  "pattern_match_body pattern_match_rec n string i =
     (case conc_match pattern_match_rec n string i of
        None \<Rightarrow> None
      | Some (Inl e) \<Rightarrow> Some (Inl e)
      | Some (Inr (x, j)) \<Rightarrow> pattern_loop pattern_match_rec n string j [x])"

primrec pattern_match :: "nat \<Rightarrow> matcher" where
  "pattern_match 0 = (\<lambda>string i. None)"
| "pattern_match (Suc n) = pattern_match_body (pattern_match n) n"

text \<open>\<^verbatim>\<open>pattern.parse\<close>: the whole string must be consumed.\<close>

definition pattern_parse :: "nat \<Rightarrow> string \<Rightarrow> (error + pyval) option" where
  "pattern_parse fuel string =
     (case pattern_match fuel string 0 of
        None \<Rightarrow> None
      | Some (Inl e) \<Rightarrow> Some (Inl e)
      | Some (Inr (result, i)) \<Rightarrow>
          if i \<noteq> length string then Some (Inl MatchFailureException)
          else Some (Inr result))"

section \<open>Reduction\<close>

text \<open>
  \<^verbatim>\<open>mult.__sub__\<close> and \<^verbatim>\<open>mult.__and__\<close> (the second definition of the class, which
  replaces the first). For an operand that is no mult, \<^verbatim>\<open>__and__\<close> goes up to
  \<^verbatim>\<open>conc.__and__\<close> and \<^verbatim>\<open>pattern.__and__\<close>, hence the parameter for the machines.
\<close>

type_synonym fsm_module = "char option set \<Rightarrow> pyval \<Rightarrow> pyval \<Rightarrow> error + pyval"


definition mult_sub :: "pyval \<Rightarrow> pyval \<Rightarrow> error + pyval" where
  "mult_sub self other =
     (if type_of other \<noteq> KMult then Inl AttributeError
      else if \<not> py_eq (multiplicand other) (multiplicand self)
      then Inl NoCommonMultiplicandException
      else rbind (multiplier_sub (multiplier self) (multiplier other))
             (\<lambda>x. mult_init (multiplicand self) x))"

definition mult_and :: "fsm_module \<Rightarrow> pyval \<Rightarrow> pyval \<Rightarrow> error + pyval" where
  "mult_and fsm self other =
     (if type_of other \<noteq> KMult
      then rbind (conc_init [self]) (\<lambda>c. rbind (pattern_init [c]) (\<lambda>p. pattern_and fsm p other))
      else if \<not> py_eq (multiplicand other) (multiplicand self)
      then Inl NoCommonMultiplicandException
      else rbind (multiplier_and (multiplier self) (multiplier other))
             (\<lambda>x. mult_init (multiplicand self) x))"

text \<open>A loop over a list with a state, ended by the first exception.\<close>

primrec fold_res :: "('s \<Rightarrow> 'a \<Rightarrow> error + 's) \<Rightarrow> 's \<Rightarrow> 'a list \<Rightarrow> error + 's" where
  "fold_res f s [] = Inr s"
| "fold_res f s (x # xs) = rbind (f s x) (\<lambda>s'. fold_res f s' xs)"

text \<open>
  \<^verbatim>\<open>pattern._multprefix\<close> and \<^verbatim>\<open>pattern._multsuffix\<close>: the first loop finds the
  common mult (\<^verbatim>\<open>commonMult\<close> starts as \<^verbatim>\<open>None\<close>), the second subtracts it from
  every conc.
\<close>

definition multprefix :: "fsm_module \<Rightarrow> pyval \<Rightarrow> error + pyval \<times> pyval" where
  "multprefix fsm self =
     rbind
       (fold_res
          (\<lambda>commonMult c.
             if length (mults c) = 0 then Inl NoMultPrefixException
             else rbind
                    (case commonMult of
                       None \<Rightarrow> Inr (hd (mults c))
                     | Some cm \<Rightarrow>
                         (case mult_and fsm cm (hd (mults c)) of
                            Inl e \<Rightarrow> (if e = NoCommonMultiplicandException
                                      then Inl NoMultPrefixException else Inl e)
                          | Inr r \<Rightarrow> Inr r))
                    (\<lambda>cm. if multiplier cm = zero_m then Inl NoMultPrefixException
                          else Inr (Some cm)))
          None (concs self))
       (\<lambda>commonMult.
          (case commonMult of
             None \<Rightarrow> Inl NoMultPrefixException
           | Some cm \<Rightarrow>
               rbind
                 (sequence
                    (map (\<lambda>c. rbind (mult_sub (hd (mults c)) cm)
                                 (\<lambda>newMult1.
                                    if multiplier newMult1 = zero_m
                                    then conc_init (tl (mults c))
                                    else conc_init (newMult1 # tl (mults c))))
                       (concs self)))
                 (\<lambda>leftovers. rbind (pattern_init leftovers) (\<lambda>p. Inr (cm, p)))))"

definition multsuffix :: "fsm_module \<Rightarrow> pyval \<Rightarrow> error + pyval \<times> pyval" where
  "multsuffix fsm self =
     rbind
       (fold_res
          (\<lambda>commonMult c.
             if length (mults c) = 0 then Inl NoMultSuffixException
             else rbind
                    (case commonMult of
                       None \<Rightarrow> Inr (last (mults c))
                     | Some cm \<Rightarrow>
                         (case mult_and fsm cm (last (mults c)) of
                            Inl e \<Rightarrow> (if e = NoCommonMultiplicandException
                                      then Inl NoMultSuffixException else Inl e)
                          | Inr r \<Rightarrow> Inr r))
                    (\<lambda>cm. if multiplier cm = zero_m then Inl NoMultSuffixException
                          else Inr (Some cm)))
          None (concs self))
       (\<lambda>commonMult.
          (case commonMult of
             None \<Rightarrow> Inl NoMultSuffixException
           | Some cm \<Rightarrow>
               rbind
                 (sequence
                    (map (\<lambda>c. rbind (mult_sub (last (mults c)) cm)
                                 (\<lambda>newMult1.
                                    if multiplier newMult1 = zero_m
                                    then conc_init (butlast (mults c))
                                    else conc_init (butlast (mults c) @ [newMult1])))
                       (concs self)))
                 (\<lambda>leftovers. rbind (pattern_init leftovers) (\<lambda>p. Inr (p, cm)))))"

text \<open>
  \<^verbatim>\<open>pattern._concprefix\<close> and \<^verbatim>\<open>pattern._concsuffix\<close>: \<^verbatim>\<open>while True\<close> loops that
  end when \<^verbatim>\<open>_multprefix\<close> raises. Each turn takes one unit of fuel, \<open>None\<close> is
  "out of fuel"; the loop state is the list of mults found and the leftovers.
\<close>

primrec concprefix_loop ::
  "fsm_module \<Rightarrow> nat \<Rightarrow> pyval list \<Rightarrow> pyval \<Rightarrow> (error + pyval \<times> pyval) option" where
  "concprefix_loop fsm 0 prefix leftovers = None"
| "concprefix_loop fsm (Suc n) prefix leftovers =
     (case multprefix fsm leftovers of
        Inl e \<Rightarrow>
          (if e = NoMultPrefixException
           then Some (rbind (conc_init prefix) (\<lambda>c. Inr (c, leftovers)))
           else Some (Inl e))
      | Inr (commonMult, leftovers') \<Rightarrow>
          concprefix_loop fsm n (prefix @ [commonMult]) leftovers')"

primrec concsuffix_loop ::
  "fsm_module \<Rightarrow> nat \<Rightarrow> pyval list \<Rightarrow> pyval \<Rightarrow> (error + pyval \<times> pyval) option" where
  "concsuffix_loop fsm 0 suffix leftovers = None"
| "concsuffix_loop fsm (Suc n) suffix leftovers =
     (case multsuffix fsm leftovers of
        Inl e \<Rightarrow>
          (if e = NoMultSuffixException
           then Some (rbind (conc_init suffix) (\<lambda>c. Inr (leftovers, c)))
           else Some (Inl e))
      | Inr (leftovers', commonMult) \<Rightarrow>
          concsuffix_loop fsm n (commonMult # suffix) leftovers')"

definition concprefix :: "fsm_module \<Rightarrow> nat \<Rightarrow> pyval \<Rightarrow> (error + pyval \<times> pyval) option" where
  "concprefix fsm n self = concprefix_loop fsm n [] self"

definition concsuffix :: "fsm_module \<Rightarrow> nat \<Rightarrow> pyval \<Rightarrow> (error + pyval \<times> pyval) option" where
  "concsuffix fsm n self = concsuffix_loop fsm n [] self"

text \<open>
  The \<^verbatim>\<open>reduce\<close> methods. A call of \<^verbatim>\<open>reduce\<close> may not return (the methods call
  each other on terms they build), so a result is an option: \<open>None\<close> is "out of
  fuel", \<open>Some (Inl e)\<close> an exception, \<open>Some (Inr r)\<close> the value returned.
  \<open>obind\<close> sequences two such computations. In each method body the argument
  \<open>reduce_rec\<close> stands for the method call \<^verbatim>\<open>x.reduce()\<close> on any piece.
\<close>

type_synonym reducer = "pyval \<Rightarrow> (error + pyval) option"

definition obind :: "(error + 'a) option \<Rightarrow> ('a \<Rightarrow> (error + 'b) option) \<Rightarrow> (error + 'b) option"
where
  "obind m f = (case m of None \<Rightarrow> None | Some r \<Rightarrow> (case r of Inl e \<Rightarrow> Some (Inl e) | Inr v \<Rightarrow> f v))"

primrec mapM :: "('a \<Rightarrow> (error + 'b) option) \<Rightarrow> 'a list \<Rightarrow> (error + 'b list) option" where
  "mapM f [] = Some (Inr [])"
| "mapM f (x # xs) = obind (f x) (\<lambda>y. obind (mapM f xs) (\<lambda>ys. Some (Inr (y # ys))))"

definition empty_charclass :: pyval where
  "empty_charclass = CharclassV (Charclass {} False)"

text \<open>
  The test of \<^verbatim>\<open>conc.reduce\<close> and \<^verbatim>\<open>pattern.reduce\<close> for a mult that can never
  match: the multiplicand is \<^verbatim>\<open>charclass()\<close> and min is \<^verbatim>\<open>None\<close> or positive.
\<close>

definition never_matches :: "pyval \<Rightarrow> bool" where
  "never_matches m =
     (py_eq (multiplicand m) empty_charclass
      \<and> (case min_m (multiplier m) of None \<Rightarrow> True | Some k \<Rightarrow> k > 0))"

text \<open>\<^verbatim>\<open>mult.reduce\<close>.\<close>

definition mult_reduce :: "reducer \<Rightarrow> pyval \<Rightarrow> (error + pyval) option" where
  "mult_reduce reduce_rec self =
     (if type_of (multiplicand self) = KPattern
         \<and> contains emptystring (concs (multiplicand self))
      then obind
             (Some (rbind (pattern_init (frozenset_remove (concs (multiplicand self)) emptystring))
                      (\<lambda>p. rbind (multiplier_mul (multiplier self) qm)
                             (\<lambda>x. mult_init p x))))
             reduce_rec
      else if multiplier self = zero_m then reduce_rec empty_charclass
      else if py_eq (multiplicand self) nothing then
        (if min_m (multiplier self) = Some 0 then reduce_rec emptystring
         else reduce_rec empty_charclass)
      else if multiplier self = one_m then reduce_rec (multiplicand self)
      else
        obind (reduce_rec (multiplicand self)) (\<lambda>r0.
        obind (Some (if type_of r0 = KMult then conc_init [r0] else Inr r0)) (\<lambda>r1.
        obind (Some (if type_of r1 = KConc then pattern_init [r1] else Inr r1))
          (\<lambda>reducedMultiplicand.
        if \<not> py_eq reducedMultiplicand (multiplicand self)
        then obind (Some (mult_init reducedMultiplicand (multiplier self))) reduce_rec
        else if type_of (multiplicand self) = KPattern
                \<and> length (concs (multiplicand self)) = 1
                \<and> length (mults (hd (concs (multiplicand self)))) = 1
        then obind
               (Some (rbind (multiplier_mul
                               (multiplier (hd (mults (hd (concs (multiplicand self))))))
                               (multiplier self))
                        (\<lambda>x. mult_init
                               (multiplicand (hd (mults (hd (concs (multiplicand self)))))) x)))
               reduce_rec
        else Some (Inr self)))))"

text \<open>\<^verbatim>\<open>conc.reduce\<close>. The two index loops return at the first index found.\<close>

definition conc_reduce :: "reducer \<Rightarrow> pyval \<Rightarrow> (error + pyval) option" where
  "conc_reduce reduce_rec self =
     (if list_ex never_matches (mults self) then reduce_rec empty_charclass
      else if length (mults self) = 1 then reduce_rec (mults self ! 0)
      else
        obind (mapM reduce_rec (mults self)) (\<lambda>r0.
        obind (Some (sequence
                 (map (\<lambda>x. if type_of x = KConc then pattern_init [x] else Inr x) r0))) (\<lambda>r1.
        obind (Some (sequence
                 (map (\<lambda>x. if type_of x \<in> {KCharclass, KPattern} then mult_init x one_m
                           else Inr x) r1)))
          (\<lambda>reducedMults.
        if \<not> tuple_eq reducedMults (mults self)
        then obind (Some (conc_init reducedMults)) reduce_rec
        else
          (case find (\<lambda>i. py_eq (multiplicand (mults self ! i))
                              (multiplicand (mults self ! (i + 1))))
                  [0 ..< length (mults self) - 1] of
             Some i \<Rightarrow>
               obind
                 (Some (rbind (multiplier_add (multiplier (mults self ! i))
                                 (multiplier (mults self ! (i + 1))))
                          (\<lambda>x. rbind (mult_init (multiplicand (mults self ! i)) x)
                                 (\<lambda>squished.
                                    conc_init (take i (mults self) @ [squished]
                                               @ drop (i + 2) (mults self))))))
                 reduce_rec
           | None \<Rightarrow>
               (case find (\<lambda>i. multiplier (mults self ! i) = one_m
                                \<and> type_of (multiplicand (mults self ! i)) = KPattern
                                \<and> length (concs (multiplicand (mults self ! i))) = 1)
                       [0 ..< length (mults self)] of
                  Some i \<Rightarrow>
                    obind
                      (Some (conc_init
                               (take i (mults self)
                                @ mults (hd (concs (multiplicand (mults self ! i))))
                                @ drop (i + 1) (mults self))))
                      reduce_rec
                | None \<Rightarrow> Some (Inr self)))))))"

text \<open>
  The merge loop of \<^verbatim>\<open>pattern.reduce\<close>: the state is
  \<^verbatim>\<open>(isChanged, merged, rest)\<close>; \<^verbatim>\<open>merged\<close> is a dictionary from multipliers to
  charclasses, kept in insertion order.
\<close>

fun dict_set :: "'k \<Rightarrow> 'v \<Rightarrow> ('k \<times> 'v) list \<Rightarrow> ('k \<times> 'v) list" where
  "dict_set k v [] = [(k, v)]"
| "dict_set k v ((k', v') # d) = (if k = k' then (k, v) # d else (k', v') # dict_set k v d)"

definition merge_step ::
  "bool \<times> (multiplier \<times> charclass) list \<times> pyval list \<Rightarrow> pyval
   \<Rightarrow> bool \<times> (multiplier \<times> charclass) list \<times> pyval list" where
  "merge_step st x =
     (case st of (isChanged, merged, rest) \<Rightarrow>
        if length (mults x) = 1 \<and> type_of (multiplicand (mults x ! 0)) = KCharclass
        then
          (case map_of merged (multiplier (mults x ! 0)) of
             Some old \<Rightarrow>
               (True,
                dict_set (multiplier (mults x ! 0))
                  (charclass_or old (charclass_of (multiplicand (mults x ! 0)))) merged,
                rest)
           | None \<Rightarrow>
               (isChanged,
                dict_set (multiplier (mults x ! 0))
                  (charclass_of (multiplicand (mults x ! 0))) merged,
                rest))
        else (isChanged, merged, rest @ [x]))"

text \<open>\<^verbatim>\<open>pattern.reduce\<close>. The number \<open>n\<close> is the fuel of the two factoring loops.\<close>

definition pattern_reduce ::
  "fsm_module \<Rightarrow> nat \<Rightarrow> reducer \<Rightarrow> pyval \<Rightarrow> (error + pyval) option" where
  "pattern_reduce fsm n reduce_rec self =
     (case find (\<lambda>c. list_ex never_matches (mults c)) (concs self) of
        Some c \<Rightarrow> obind (Some (pattern_init (frozenset_remove (concs self) c))) reduce_rec
      | None \<Rightarrow>
     (if length (concs self) = 1 then reduce_rec (hd (concs self))
      else
        obind (mapM reduce_rec (concs self)) (\<lambda>r0.
        obind (Some (sequence
                 (map (\<lambda>x. if type_of x \<in> {KCharclass, KPattern} then mult_init x one_m
                           else Inr x) r0))) (\<lambda>r1.
        obind (Some (sequence
                 (map (\<lambda>x. if type_of x = KMult then conc_init [x] else Inr x) r1))) (\<lambda>r2.
        if \<not> frozenset_eq (frozenset r2) (concs self)
        then obind (Some (pattern_init (frozenset r2))) reduce_rec
        else
          (case foldl merge_step (False, [], []) (concs self) of
             (isChanged, merged, rest) \<Rightarrow>
               if isChanged
               then obind
                      (Some (rbind (sequence
                                      (map (\<lambda>(key, cc).
                                              rbind (mult_init (CharclassV cc) key)
                                                (\<lambda>m. conc_init [m]))
                                         merged))
                               (\<lambda>new. pattern_init (rest @ new))))
                      reduce_rec
               else
                 obind (concprefix fsm n self) (\<lambda>(concPrefix, leftovers).
                 if \<not> py_eq concPrefix emptystring
                 then obind
                        (Some (rbind (mult_init leftovers one_m)
                                 (\<lambda>m. conc_init (mults concPrefix @ [m]))))
                        reduce_rec
                 else
                   obind (concsuffix fsm n self) (\<lambda>(leftovers, concSuffix).
                   if \<not> py_eq concSuffix emptystring
                   then obind
                          (Some (rbind (mult_init leftovers one_m)
                                   (\<lambda>m. conc_init (m # mults concSuffix))))
                          reduce_rec
                   else Some (Inr self)))))))))"

text \<open>
  The method call \<^verbatim>\<open>x.reduce()\<close>, dispatched on the class of \<open>x\<close>
  (\<^verbatim>\<open>charclass.reduce\<close> returns \<^verbatim>\<open>self\<close>), and the recursion on fuel.
\<close>

definition reduce_body :: "fsm_module \<Rightarrow> nat \<Rightarrow> reducer \<Rightarrow> reducer" where
  "reduce_body fsm n reduce_rec self =
     (case type_of self of
        KCharclass \<Rightarrow> Some (Inr self)
      | KMult \<Rightarrow> mult_reduce reduce_rec self
      | KConc \<Rightarrow> conc_reduce reduce_rec self
      | KPattern \<Rightarrow> pattern_reduce fsm n reduce_rec self
      | KType \<Rightarrow> Some (Inl AttributeError))"

primrec reduce :: "fsm_module \<Rightarrow> nat \<Rightarrow> reducer" where
  "reduce fsm 0 = (\<lambda>self. None)"
| "reduce fsm (Suc n) = reduce_body fsm n (reduce fsm n)"


section \<open>Multiplier arithmetic\<close>

text \<open>
  C3, as the specification states it, fails: the difference of \<open>(\<infinity>, \<infinity>)\<close> and
  \<open>(1, \<infinity>)\<close> has the view (mandatory \<open>\<infinity>\<close>, optional \<open>0\<close>), and
  \<^verbatim>\<open>multiplier.__sub__\<close> raises there instead of returning \<open>(\<infinity>, \<infinity>)\<close>.
\<close>

theorem multiplier_sub_inf_plus_raises:
  "spec_minus (mandatory inf_m) (mandatory plus_m) = Inr None \<and>
   spec_minus (optional inf_m) (optional plus_m) = Inr (Some 0) \<and>
   multiplier_sub inf_m plus_m = Inl (Exception CantSubtract)"
  by (simp add: inf_m_def plus_m_def multiplier_sub_def)

text \<open>
  C3, amended: multiplier subtraction works per component on the (mandatory, optional)
  view with \<open>n - m\<close> on numbers, \<open>\<infinity> - \<infinity> = 0\<close>, \<open>\<infinity> - n = \<infinity>\<close> and \<open>n - \<infinity>\<close>
  raising. The result is \<open>(\<infinity>, \<infinity>)\<close> when both resulting components are \<open>\<infinity>\<close>;
  the subtraction raises when the resulting mandatory is \<open>\<infinity>\<close> and the resulting
  optional is a number (\<open>0\<close> included); otherwise min is the mandatory and max is
  mandatory plus optional (\<open>\<infinity>\<close> absorbing), the constructor rejecting a negative
  mandatory or optional.
\<close>

theorem multiplier_sub_components:
  "multiplier_sub self other =
     (case spec_minus (mandatory self) (mandatory other) of
        Inl e \<Rightarrow> Inl (Exception CantSubtract)
      | Inr newMandatory \<Rightarrow>
     (case spec_minus (optional self) (optional other) of
        Inl e \<Rightarrow> Inl (Exception CantSubtract)
      | Inr newOptional \<Rightarrow>
     (case newMandatory of
        None \<Rightarrow> (case newOptional of
                    None \<Rightarrow> Inr inf_m
                  | Some k \<Rightarrow> Inl (Exception CantSubtract))
      | Some m \<Rightarrow>
          if m < 0 then Inl (Exception MinMustBeNonNegative)
          else (case newOptional of
                  None \<Rightarrow> Inr (Multiplier (Some m) None)
                | Some k \<Rightarrow>
                    if k < 0 then Inl (Exception MaxMustMatchOrExceedMin)
                    else Inr (Multiplier (Some m) (spec_plus (Some m) (Some k)))))))"
  by (cases self; cases other; cases "min_m self"; cases "min_m other";
      cases "max_m self"; cases "max_m other")
     (auto simp: multiplier_sub_def inf_m_def)

theorem multiplier_sub_components_witness:
  "multiplier_sub (Multiplier (Some 4) (Some 5)) (Multiplier (Some 3) (Some 3))
     = Inr (Multiplier (Some 1) (Some 2))
   \<and> multiplier_sub inf_m one_m = Inr inf_m
   \<and> multiplier_sub inf_m inf_m = Inr zero_m
   \<and> multiplier_sub star star = Inr zero_m
   \<and> multiplier_sub one_m inf_m = Inl (Exception CantSubtract)"
  using multiplier_sub_components [of "Multiplier (Some 4) (Some 5)" "Multiplier (Some 3) (Some 3)"]
    multiplier_sub_components [of inf_m one_m]
    multiplier_sub_components [of inf_m inf_m]
    multiplier_sub_components [of star star]
    multiplier_sub_components [of one_m inf_m]
  by (simp add: inf_m_def one_m_def zero_m_def star_def)

text \<open>
  C7, as the specification states it, fails: the specification defines the optional
  of a multiplier as \<open>max - min\<close> with \<open>\<infinity> - \<infinity> = 0\<close>, so that the view of
  \<open>(\<infinity>, \<infinity>)\<close> is mandatory \<open>\<infinity>\<close> and optional \<open>0\<close>. The view of \<open>(0, \<infinity>)\<close> is
  mandatory \<open>0\<close> and optional \<open>\<infinity>\<close>, the componentwise minimum of the two views is
  mandatory \<open>0\<close> and optional \<open>0\<close>, and the multiplier reconstructed from it is \<open>{0}\<close>.
  \<^verbatim>\<open>multiplier.__and__\<close> returns \<open>(0, \<infinity>)\<close>, because the attribute \<^verbatim>\<open>optional\<close>
  of \<open>(\<infinity>, \<infinity>)\<close> is \<open>\<infinity>\<close> in the code. In the same way the code returns \<open>{0,1}\<close>
  for \<open>(\<infinity>, \<infinity>)\<close> and \<open>{0,1}\<close>, and \<open>(1, \<infinity>)\<close> for \<open>(\<infinity>, \<infinity>)\<close> and \<open>(1, \<infinity>)\<close>,
  where the view of the specification gives \<open>{0}\<close> and \<open>{1}\<close>.
\<close>

theorem multiplier_and_inf_star_not_spec_view:
  "spec_mandatory inf_m = None \<and> spec_optional inf_m = Inr (Some 0)
   \<and> spec_mandatory star = Some 0 \<and> spec_optional star = Inr None
   \<and> spec_and inf_m star = Inr zero_m
   \<and> multiplier_and inf_m star = Inr star
   \<and> star \<noteq> zero_m
   \<and> spec_and inf_m qm = Inr zero_m \<and> multiplier_and inf_m qm = Inr qm
   \<and> spec_and inf_m plus_m = Inr one_m \<and> multiplier_and inf_m plus_m = Inr plus_m"
  by (simp add: spec_mandatory_def spec_optional_def spec_and_def spec_reconstruct_def
      multiplier_and_def inf_m_def star_def zero_m_def qm_def plus_m_def one_m_def)

text \<open>
  C7, amended: \<^verbatim>\<open>multiplier.__and__\<close> takes the componentwise minimum (\<open>\<infinity>\<close> above
  every number) of the attributes \<^verbatim>\<open>mandatory\<close> and \<^verbatim>\<open>optional\<close> as the constructor
  stores them: mandatory is min, and optional is \<open>max - min\<close> with \<open>\<infinity> - n = \<infinity>\<close>
  and with \<open>\<infinity>\<close> (not \<open>0\<close>) for \<open>(\<infinity>, \<infinity>)\<close>. On multipliers the constructor accepts
  the result has min the resulting mandatory and max the resulting mandatory plus the
  resulting optional (\<open>\<infinity>\<close> absorbing); \<open>{3,4}\<close> and \<open>{2,5}\<close> have \<open>{2,3}\<close> in common.
\<close>

theorem multiplier_and_componentwise:
  assumes "valid_multiplier self" and "valid_multiplier other"
  shows "(\<exists>r. multiplier_and self other = Inr r \<and> valid_multiplier r
           \<and> mandatory r = spec_min (mandatory self) (mandatory other)
           \<and> optional r = spec_min (optional self) (optional other)
           \<and> min_m r = mandatory r
           \<and> max_m r = spec_plus (mandatory r) (optional r))
         \<and> multiplier_and (Multiplier (Some 3) (Some 4)) (Multiplier (Some 2) (Some 5))
             = Inr (Multiplier (Some 2) (Some 3))"
  using assms
  by (cases self; cases other; cases "min_m self"; cases "min_m other";
      cases "max_m self"; cases "max_m other")
     (auto simp: multiplier_and_def valid_multiplier_def Let_def min_def split: if_splits)

theorem multiplier_and_componentwise_witness:
  "valid_multiplier (Multiplier (Some 2) None)
   \<and> valid_multiplier (Multiplier (Some 1) (Some 5))
   \<and> multiplier_and (Multiplier (Some 2) None) (Multiplier (Some 1) (Some 5))
       = Inr (Multiplier (Some 1) (Some 5))"
proof -
  have a: "valid_multiplier (Multiplier (Some 2) None)"
    by (simp add: valid_multiplier_def)
  have b: "valid_multiplier (Multiplier (Some 1) (Some 5))"
    by (simp add: valid_multiplier_def)
  from multiplier_and_componentwise [OF a b] a b show ?thesis
    by (auto simp: multiplier_and_def)
qed

section \<open>Charclass algebra\<close>

text \<open>
  C6: for every two charclasses, whatever their negation flags, the difference is the
  intersection with the complement.
\<close>

theorem charclass_sub_is_and_invert:
  "charclass_sub A B = charclass_and A (charclass_invert B)"
  by (simp add: charclass_sub_def charclass_and_def charclass_invert_def)

theorem charclass_sub_is_and_invert_witness:
  "charclass_sub (Charclass {CHR ''a'', CHR ''b''} True) (Charclass {CHR ''b'', CHR ''c''} True)
     = Charclass {CHR ''c''} False
   \<and> charclass_and (Charclass {CHR ''a'', CHR ''b''} True)
        (charclass_invert (Charclass {CHR ''b'', CHR ''c''} True)) = Charclass {CHR ''c''} False"
  using charclass_sub_is_and_invert
    [of "Charclass {CHR ''a'', CHR ''b''} True" "Charclass {CHR ''b'', CHR ''c''} True"]
  by (auto simp: charclass_sub_def)

section \<open>Rendering\<close>

lemma shorthand_dot: "map_of shorthand (Charclass {} True) = Some ''.''"
  by (simp add: shorthand_def w_class_def d_class_def s_class_def W_class_def D_class_def
        S_class_def dot_def charclass_invert_def w_chars_def s_chars_def)

lemma shorthand_keys:
  "map_of shorthand c = Some sh \<Longrightarrow> chars c \<noteq> {} \<or> negated c"
  by (auto simp: shorthand_def w_class_def d_class_def s_class_def W_class_def D_class_def
        S_class_def dot_def charclass_invert_def w_chars_def s_chars_def split: if_splits)

lemma charclass_regex_raises:
  "charclass_regex c = Inl e \<longleftrightarrow> (e = NoRegexException \<and> chars c = {} \<and> \<not> negated c)"
proof (cases "map_of shorthand c")
  case None
  have fin: "finite (chars c)" by simp
  from None shorthand_dot have nd: "\<not> (chars c = {} \<and> negated c)" by (cases c) auto
  show ?thesis
  proof (cases "chars c = {}")
    case True
    with nd None show ?thesis by (auto simp: charclass_regex_def)
  next
    case False
    then have "0 < card (chars c)" using fin by (simp add: card_gt_0_iff)
    then show ?thesis using None False
      by (simp add: charclass_regex_def Let_def split: option.splits)
  qed
next
  case (Some sh)
  with shorthand_keys[OF Some] show ?thesis by (auto simp: charclass_regex_def)
qed

lemma multiplier_regex_raises:
  "multiplier_regex m = Inl e \<longleftrightarrow> (e = NoRegexException \<and> unprintable_multiplier m)"
  by (auto simp: multiplier_regex_def unprintable_multiplier_def split: option.splits)

lemma sequence_map_NoRegex:
  assumes "\<And>x. x \<in> set xs \<Longrightarrow> (f x = Inl NoRegexException \<longleftrightarrow> u x) \<and> (u x \<or> (\<exists>s. f x = Inr s))"
  shows "(sequence (map f xs) = Inl NoRegexException \<longleftrightarrow> list_ex u xs)
         \<and> (list_ex u xs \<or> (\<exists>ss. sequence (map f xs) = Inr ss))"
  using assms
proof (induction xs)
  case Nil
  then show ?case by simp
next
  case (Cons a xs)
  have a: "(f a = Inl NoRegexException \<longleftrightarrow> u a) \<and> (u a \<or> (\<exists>s. f a = Inr s))"
    using Cons.prems by simp
  have IH: "(sequence (map f xs) = Inl NoRegexException \<longleftrightarrow> list_ex u xs)
         \<and> (list_ex u xs \<or> (\<exists>ss. sequence (map f xs) = Inr ss))"
    using Cons by simp
  show ?case
  proof (cases "f a")
    case (Inl e)
    with a show ?thesis by auto
  next
    case (Inr v)
    with a IH show ?thesis by (auto split: sum.splits)
  qed
qed


lemma regex_raises_iff_unprintable_term:
  "well_formed T \<Longrightarrow> (regex T = Inl NoRegexException \<longleftrightarrow> unprintable T)
            \<and> (unprintable T \<or> (\<exists>s. regex T = Inr s))"
proof (induction T)
  case (CharclassV c)
  show ?case using charclass_regex_raises[of c]
    by (cases "charclass_regex c") auto
next
  case (Mult x m)
  then have IH: "(regex x = Inl NoRegexException \<longleftrightarrow> unprintable x)
            \<and> (unprintable x \<or> (\<exists>s. regex x = Inr s))" by simp
  show ?case
  proof (cases "regex x")
    case (Inl e)
    with IH show ?thesis by auto
  next
    case rx: (Inr r)
    with IH have nx: "\<not> unprintable x" by auto
    show ?thesis
    proof (cases "multiplier_regex m")
      case (Inl e)
      with multiplier_regex_raises[of m e] rx show ?thesis by simp
    next
      case (Inr suffix)
      with multiplier_regex_raises[of m NoRegexException] have "\<not> unprintable_multiplier m" by simp
      with Inr rx nx show ?thesis by simp
    qed
  qed
next
  case (Conc ms)
  have "\<And>x. x \<in> set ms \<Longrightarrow> (regex x = Inl NoRegexException \<longleftrightarrow> unprintable x)
         \<and> (unprintable x \<or> (\<exists>s. regex x = Inr s))"
    using Conc by (simp add: list_all_iff)
  from sequence_map_NoRegex[of ms regex unprintable, OF this]
  show ?case by (cases "sequence (map regex ms)") auto
next
  case (Pattern cs)
  have "\<And>x. x \<in> set cs \<Longrightarrow> (regex x = Inl NoRegexException \<longleftrightarrow> unprintable x)
         \<and> (unprintable x \<or> (\<exists>s. regex x = Inr s))"
    using Pattern by (simp add: list_all_iff)
  from sequence_map_NoRegex[of cs regex unprintable, OF this]
  show ?case by (cases cs; cases "sequence (map regex cs)") auto
next
  case (ClassObj k)
  then show ?case by simp
qed

text \<open>
  C4: on every term the constructors can build, \<^verbatim>\<open>regex\<close> raises
  \<^verbatim>\<open>NoRegexException\<close> exactly when the term is or contains the empty charclass,
  a multiplier with max \<open>0\<close> or min \<open>\<infinity>\<close>, or the empty pattern, and on every other
  term it returns a string; \<^verbatim>\<open>multiplier.regex\<close> raises exactly on a multiplier
  with max \<open>0\<close> or min \<open>\<infinity>\<close> and returns a string on every other.
\<close>

theorem regex_raises_iff_unprintable:
  assumes "well_formed T"
  shows "(regex T = Inl NoRegexException \<longleftrightarrow> unprintable T)
         \<and> (unprintable T \<or> (\<exists>s. regex T = Inr s))
         \<and> (multiplier_regex m = Inl NoRegexException \<longleftrightarrow> unprintable_multiplier m)
         \<and> (unprintable_multiplier m \<or> (\<exists>s. multiplier_regex m = Inr s))"
proof -
  have "unprintable_multiplier m \<or> (\<exists>s. multiplier_regex m = Inr s)"
    using multiplier_regex_raises[of m] by (cases "multiplier_regex m") auto
  with regex_raises_iff_unprintable_term[OF assms] multiplier_regex_raises[of m NoRegexException]
  show ?thesis by simp
qed

theorem regex_raises_iff_unprintable_witness:
  "well_formed (Pattern [Conc [Mult (CharclassV (Charclass {} False)) one_m]])
   \<and> unprintable (Pattern [Conc [Mult (CharclassV (Charclass {} False)) one_m]])
   \<and> regex (Pattern [Conc [Mult (CharclassV (Charclass {} False)) one_m]])
       = Inl NoRegexException
   \<and> unprintable_multiplier inf_m
   \<and> multiplier_regex inf_m = Inl NoRegexException"
proof -
  have w: "well_formed (Pattern [Conc [Mult (CharclassV (Charclass {} False)) one_m]])"
    by (simp add: valid_multiplier_def one_m_def contains_def)
  have u: "unprintable_multiplier inf_m" by (simp add: unprintable_multiplier_def inf_m_def)
  from regex_raises_iff_unprintable [OF w, of inf_m] w u show ?thesis by simp
qed

lemma length_concat_replicate:
  "length (concat (replicate n (out::string))) = n * length out"
  by (induction n) auto


text \<open>
  C9: for a mult whose multiplicand and multiplier both render, with min equal to
  max the rendering is the repeated literal when it is no longer than the
  multiplicand followed by the multiplier's text, and the latter otherwise; for every
  other mult it is the multiplicand (in parentheses if a pattern) followed by the
  multiplier's text.
\<close>

theorem mult_regex_choice:
  assumes "valid_multiplier m" and "regex x = Inr r" and "multiplier_regex m = Inr suffix"
  shows "regex (Mult x m) =
     (let out = (if type_of x = KPattern then ''('' @ r @ '')'' else r);
          repeated = concat (replicate (nat (the (min_m m))) out);
          braced = out @ suffix
      in Inr (if min_m m = max_m m
              then (if length repeated \<le> length braced then repeated else braced)
              else braced))"
proof -
  define out where "out = (if type_of x = KPattern then ''('' @ r @ '')'' else r)"
  have rx: "(if type_of x = KPattern
            then (case regex x of Inl e \<Rightarrow> Inl e | Inr r \<Rightarrow> Inr (''('' @ r @ '')''))
            else regex x) = Inr out"
    using assms(2) by (simp add: out_def)
  show ?thesis
  proof (cases "min_m m = max_m m")
    case False
    then show ?thesis using assms(3) rx by (simp add: Let_def out_def[symmetric])
  next
    case True
    from assms(3) obtain k where k: "min_m m = Some k"
      by (cases "min_m m") (auto simp: multiplier_regex_def)
    from assms(3) True k have "k \<noteq> 0" by (auto simp: multiplier_regex_def)
    moreover from assms(1) k True have "0 \<le> k"
      by (cases m) (auto simp: valid_multiplier_def split: if_splits)
    ultimately have k1: "1 \<le> k" by simp
    define n where "n = nat (k - 1)"
    have kn: "nat k = Suc n" "k = int (Suc n)" using k1 by (simp_all add: n_def)
    have cmp: "int (length out) * k \<le> int (length out) + int (length suffix)
             \<longleftrightarrow> length (concat (replicate (nat k) out)) \<le> length (out @ suffix)"
    proof -
      have "int (length out) * k = int (length (concat (replicate (nat k) out)))"
        unfolding length_concat_replicate kn(1) unfolding kn(2) by (simp add: algebra_simps)
      moreover have "int (length out) + int (length suffix) = int (length (out @ suffix))"
        by simp
      ultimately show ?thesis by (metis of_nat_le_iff)
    qed
    have rep: "out @ concat (replicate (nat (k - 1)) out) = concat (replicate (nat k) out)"
      unfolding kn(1) n_def[symmetric] by simp
    from True k have mx: "max_m m = Some k" by simp
    show ?thesis
    proof (cases "int (length out) * k \<le> int (length out) + int (length suffix)")
      case le: True
      with cmp have "length (concat (replicate (nat k) out)) \<le> length (out @ suffix)" by simp
      then show ?thesis using assms(3) k mx le rep rx
        by (simp add: Let_def out_def[symmetric])
    next
      case gt: False
      with cmp have "\<not> length (concat (replicate (nat k) out)) \<le> length (out @ suffix)" by simp
      then show ?thesis using assms(3) k mx gt rx
        by (simp add: Let_def out_def[symmetric])
    qed
  qed
qed


theorem mult_regex_choice_witness:
  "regex (Mult (CharclassV (Charclass {CHR ''a''} False)) (Multiplier (Some 4) (Some 4))) = Inr ''aaaa''
   \<and> regex (Mult (CharclassV (Charclass {CHR ''a''} False)) (Multiplier (Some 5) (Some 5))) = Inr ''a{5}''"
proof -
  have r: "regex (CharclassV (Charclass {CHR ''a''} False)) = Inr ''a''"
    by code_simp
  have v4: "valid_multiplier (Multiplier (Some 4) (Some 4))" by (simp add: valid_multiplier_def)
  have v5: "valid_multiplier (Multiplier (Some 5) (Some 5))" by (simp add: valid_multiplier_def)
  have s4: "multiplier_regex (Multiplier (Some 4) (Some 4)) = Inr ''{4}''" by code_simp
  have s5: "multiplier_regex (Multiplier (Some 5) (Some 5)) = Inr ''{5}''" by code_simp
  from mult_regex_choice[OF v4 r s4] mult_regex_choice[OF v5 r s5]
  show ?thesis by (simp add: Let_def eval_nat_numeral)
qed

section \<open>Equality and hashing of patterns and concs\<close>

text \<open>
  On the values the constructors build, \<^verbatim>\<open>__eq__\<close> is an equivalence: a frozenset
  holds no element twice, so a frozenset with as many elements as another and
  contained in it also contains it.
\<close>

lemma tuple_eq_refl_aux: "(\<And>x. x \<in> set xs \<Longrightarrow> py_eq x x) \<Longrightarrow> tuple_eq xs xs"
  by (induction xs) auto

lemma py_eq_refl: "py_eq x x"
proof (induction x)
  case (Conc ms)
  then show ?case by (simp add: tuple_eq_refl_aux)
next
  case (Pattern cs)
  then show ?case by (auto simp: list_all_iff list_ex_iff)
qed auto

lemma contains_self: "x \<in> set a \<Longrightarrow> contains x a"
  using py_eq_refl by (auto simp: contains_def list_ex_iff)

lemma distinct_eq_distinct: "distinct_eq a \<Longrightarrow> distinct a"
  by (induction a) (auto dest: contains_self)

lemma distinct_eq_unique:
  "distinct_eq a \<Longrightarrow> x \<in> set a \<Longrightarrow> y \<in> set a \<Longrightarrow> py_eq x y \<Longrightarrow> py_eq y x \<Longrightarrow> x = y"
  by (induction a) (auto simp: contains_def list_ex_iff)

lemma tuple_eq_sym_aux:
  "(\<And>x y. x \<in> set xs \<Longrightarrow> y \<in> set ys \<Longrightarrow> py_eq x y \<Longrightarrow> py_eq y x)
   \<Longrightarrow> tuple_eq xs ys \<Longrightarrow> tuple_eq ys xs"
proof (induction xs arbitrary: ys)
  case Nil
  then show ?case by (cases ys) auto
next
  case (Cons a xs)
  then show ?case by (cases ys) auto
qed

lemma tuple_eq_trans_aux:
  "(\<And>x y z. x \<in> set xs \<Longrightarrow> py_eq x y \<Longrightarrow> py_eq y z \<Longrightarrow> py_eq x z)
   \<Longrightarrow> tuple_eq xs ys \<Longrightarrow> tuple_eq ys zs \<Longrightarrow> tuple_eq xs zs"
proof (induction xs arbitrary: ys zs)
  case Nil
  then show ?case by (cases ys; cases zs) auto
next
  case (Cons a xs)
  show ?case
  proof (cases ys)
    case Nil
    with Cons.prems show ?thesis by simp
  next
    case (Cons b ys')
    note ys = this
    show ?thesis
    proof (cases zs)
      case Nil
      with Cons.prems ys show ?thesis by simp
    next
      case (Cons c zs')
      from Cons.prems(2,3) ys Cons have e: "py_eq a b" "py_eq b c" "tuple_eq xs ys'" "tuple_eq ys' zs'"
        by simp_all
      have "py_eq a c" using Cons.prems(1)[of a b c] e by simp
      moreover have "tuple_eq xs zs'"
        using Cons.IH[of ys' zs'] Cons.prems(1) e by auto
      ultimately show ?thesis using Cons by simp
    qed
  qed
qed

lemma py_eq_trans: "py_eq x y \<Longrightarrow> py_eq y z \<Longrightarrow> py_eq x z"
proof (induction x arbitrary: y z)
  case (CharclassV c)
  then show ?case by (cases y; cases z) auto
next
  case (Mult x m)
  then show ?case by (cases y; cases z) auto
next
  case (Conc ms)
  from Conc.prems obtain ns where y: "y = Conc ns" by (cases y) auto
  from Conc.prems y obtain ks where z: "z = Conc ks" by (cases z) auto
  from Conc.prems have "tuple_eq ms ns" "tuple_eq ns ks" by (simp_all add: y z)
  from tuple_eq_trans_aux[OF _ this] Conc.IH show ?case unfolding z by auto
next
  case (Pattern cs)
  from Pattern.prems obtain ds where y: "y = Pattern ds" by (cases y) auto
  from Pattern.prems y obtain es where z: "z = Pattern es" by (cases z) auto
  from Pattern.prems have l: "length cs = length ds" "length ds = length es"
    and c1: "\<forall>x\<in>set cs. \<exists>d\<in>set ds. py_eq x d" and c2: "\<forall>d\<in>set ds. \<exists>e\<in>set es. py_eq d e"
    by (auto simp: y z list_all_iff list_ex_iff)
  have "\<forall>x\<in>set cs. \<exists>e\<in>set es. py_eq x e"
  proof
    fix x assume x: "x \<in> set cs"
    with c1 obtain d where d: "d \<in> set ds" "py_eq x d" by blast
    with c2 obtain e where e: "e \<in> set es" "py_eq d e" by blast
    from Pattern.IH[OF x d(2) e(2)] e(1) show "\<exists>e\<in>set es. py_eq x e" by blast
  qed
  with l show ?case by (simp add: z list_all_iff list_ex_iff)
next
  case (ClassObj k)
  then show ?case by (cases y; cases z) auto
qed

lemma eq_injection:
  assumes d: "distinct_eq a"
    and cover: "\<forall>x\<in>set a. \<exists>y\<in>set b. py_eq x y"
    and sym: "\<forall>x\<in>set a. \<forall>y\<in>set a \<union> set b. py_eq x y \<longrightarrow> py_eq y x"
  shows "\<exists>f. inj_on f (set a) \<and> f ` set a \<subseteq> set b \<and> (\<forall>x\<in>set a. py_eq x (f x))"
proof -
  from cover obtain f where f: "\<forall>x\<in>set a. f x \<in> set b \<and> py_eq x (f x)"
    by metis
  have "inj_on f (set a)"
  proof (rule inj_onI)
    fix x x'
    assume x: "x \<in> set a" and x': "x' \<in> set a" and e: "f x = f x'"
    from f x have 1: "py_eq x (f x)" by simp
    from f x' have 2: "py_eq x' (f x)" "f x \<in> set b" by (simp_all add: e)
    from sym x' 2 have 3: "py_eq (f x) x'" by blast
    from py_eq_trans[OF 1 3] have 4: "py_eq x x'" .
    from sym x x' 4 have 5: "py_eq x' x" by blast
    from distinct_eq_unique[OF d x x' 4 5] show "x = x'" .
  qed
  with f show ?thesis by (intro exI[of _ f]) auto
qed

lemma eq_bijection:
  assumes d: "distinct_eq a"
    and len: "length b \<le> length a"
    and cover: "\<forall>x\<in>set a. \<exists>y\<in>set b. py_eq x y"
    and sym: "\<forall>x\<in>set a. \<forall>y\<in>set a \<union> set b. py_eq x y \<longrightarrow> py_eq y x"
  shows "\<exists>f. bij_betw f (set a) (set b) \<and> (\<forall>x\<in>set a. py_eq x (f x))"
proof -
  from eq_injection[OF d cover sym]
  obtain f where f: "inj_on f (set a)" "f ` set a \<subseteq> set b" "\<forall>x\<in>set a. py_eq x (f x)"
    by blast
  have "card (f ` set a) = card (set a)" using f(1) by (rule card_image)
  also have "\<dots> = length a" using distinct_eq_distinct[OF d] by (rule distinct_card)
  finally have "card (set b) \<le> card (f ` set a)"
    using len card_length[of b] by linarith
  with f(2) have "f ` set a = set b" by (simp add: card_seteq)
  with f(1) have "bij_betw f (set a) (set b)" by (simp add: bij_betw_def)
  with f(3) show ?thesis by blast
qed

lemma py_eq_sym: "well_formed x \<Longrightarrow> well_formed y \<Longrightarrow> py_eq x y \<Longrightarrow> py_eq y x"
proof (induction x arbitrary: y)
  case (CharclassV c)
  then show ?case by (cases y) auto
next
  case (Mult x m)
  then show ?case by (cases y) auto
next
  case (Conc ms)
  from Conc.prems obtain ns where y: "y = Conc ns" by (cases y) auto
  from Conc.prems have t: "tuple_eq ms ns" by (simp add: y)
  have "\<And>x z. x \<in> set ms \<Longrightarrow> z \<in> set ns \<Longrightarrow> py_eq x z \<Longrightarrow> py_eq z x"
    using Conc.IH Conc.prems(1,2) by (auto simp: y list_all_iff)
  from tuple_eq_sym_aux[OF this t] show ?case by (simp add: y)
next
  case (Pattern cs)
  from Pattern.prems obtain ds where y: "y = Pattern ds" by (cases y) auto
  from Pattern.prems have l: "length cs = length ds"
    and c: "\<forall>x\<in>set cs. \<exists>d\<in>set ds. py_eq x d"
    and d: "distinct_eq cs"
    and wc: "\<forall>x\<in>set cs. well_formed x" and wd: "\<forall>x\<in>set ds. well_formed x"
    by (auto simp: y list_all_iff list_ex_iff)
  have sym: "\<forall>x\<in>set cs. \<forall>z\<in>set cs \<union> set ds. py_eq x z \<longrightarrow> py_eq z x"
    using Pattern.IH wc wd by blast
  have "length ds \<le> length cs" using l by simp
  from eq_bijection[OF d this c sym]
  obtain f where f: "bij_betw f (set cs) (set ds)" "\<forall>x\<in>set cs. py_eq x (f x)" by blast
  have "\<forall>z\<in>set ds. \<exists>x\<in>set cs. py_eq z x"
  proof
    fix z assume z: "z \<in> set ds"
    with f(1) have "z \<in> f ` set cs" by (simp add: bij_betw_def)
    then obtain x where x: "x \<in> set cs" "f x = z" by blast
    with f(2) have "py_eq x z" by auto
    with sym z x(1) show "\<exists>x\<in>set cs. py_eq z x" by blast
  qed
  with l show ?case by (simp add: y list_all_iff list_ex_iff)
next
  case (ClassObj k)
  then show ?case by (cases y) auto
qed


text \<open>Equal constructed values have equal hashes, whatever the built-in hashes are.\<close>

lemma tuple_eq_map_hash:
  "(\<And>x y. x \<in> set xs \<Longrightarrow> y \<in> set ys \<Longrightarrow> py_eq x y \<Longrightarrow> h x = h y)
   \<Longrightarrow> tuple_eq xs ys \<Longrightarrow> map h xs = map h ys"
proof (induction xs arbitrary: ys)
  case Nil
  then show ?case by (cases ys) auto
next
  case (Cons a xs)
  then show ?case by (cases ys) auto
qed

lemma mset_map_bij:
  assumes bij: "bij_betw f (set a) (set b)" and da: "distinct a" and db: "distinct b"
    and h: "\<forall>x\<in>set a. h (f x) = h x"
  shows "mset (map h a) = mset (map h b)"
proof -
  have "mset b = mset_set (set b)" using db by (simp add: mset_set_set)
  also have "\<dots> = mset_set (f ` set a)" using bij by (simp add: bij_betw_def)
  also have "\<dots> = image_mset f (mset_set (set a))"
    using bij by (simp add: image_mset_mset_set bij_betw_def)
  also have "\<dots> = image_mset f (mset a)" using da by (simp add: mset_set_set)
  finally have "mset (map h b) = image_mset h (image_mset f (mset a))" by simp
  also have "\<dots> = image_mset (\<lambda>x. h (f x)) (mset a)" by (simp add: multiset.map_comp comp_def)
  also have "\<dots> = image_mset h (mset a)" using h by (intro image_mset_cong) simp
  finally show ?thesis by simp
qed

lemma py_hash_respects_eq:
  "well_formed x \<Longrightarrow> well_formed y \<Longrightarrow> py_eq x y \<Longrightarrow> py_hash B x = py_hash B y"
proof (induction x arbitrary: y)
  case (CharclassV c)
  then show ?case by (cases y) auto
next
  case (Mult x m)
  then show ?case by (cases y) auto
next
  case (Conc ms)
  from Conc.prems obtain ns where y: "y = Conc ns" by (cases y) auto
  from Conc.prems have t: "tuple_eq ms ns" by (simp add: y)
  have "\<And>x z. x \<in> set ms \<Longrightarrow> z \<in> set ns \<Longrightarrow> py_eq x z \<Longrightarrow> py_hash B x = py_hash B z"
    using Conc.IH Conc.prems(1,2) by (auto simp: y list_all_iff)
  from tuple_eq_map_hash[OF this t] show ?case by (simp add: y)
next
  case (Pattern cs)
  from Pattern.prems obtain ds where y: "y = Pattern ds" by (cases y) auto
  from Pattern.prems have l: "length cs = length ds"
    and c: "\<forall>x\<in>set cs. \<exists>d\<in>set ds. py_eq x d"
    and d: "distinct_eq cs" and d': "distinct_eq ds"
    and wc: "\<forall>x\<in>set cs. well_formed x" and wd: "\<forall>x\<in>set ds. well_formed x"
    by (auto simp: y list_all_iff list_ex_iff)
  have sym: "\<forall>x\<in>set cs. \<forall>z\<in>set cs \<union> set ds. py_eq x z \<longrightarrow> py_eq z x"
    using py_eq_sym wc wd by blast
  have "length ds \<le> length cs" using l by simp
  from eq_bijection[OF d this c sym]
  obtain f where f: "bij_betw f (set cs) (set ds)" "\<forall>x\<in>set cs. py_eq x (f x)" by blast
  have "\<forall>x\<in>set cs. py_hash B (f x) = py_hash B x"
  proof
    fix x assume x: "x \<in> set cs"
    with f(1) have "f x \<in> set ds" by (auto simp: bij_betw_def)
    with wd have "well_formed (f x)" by simp
    from Pattern.IH[OF x _ this] x wc f(2) show "py_hash B (f x) = py_hash B x" by simp
  qed
  from mset_map_bij[OF f(1) distinct_eq_distinct[OF d] distinct_eq_distinct[OF d'] this]
  show ?case by (simp add: y)
next
  case (ClassObj k)
  then show ?case by (cases y) auto
qed

text \<open>The frozenset built from a list: its elements, and no element twice.\<close>

lemma frozenset_foldl_set:
  "set (foldl (\<lambda>acc x. if contains x acc then acc else acc @ [x]) acc xs) \<subseteq> set acc \<union> set xs"
proof (induction xs arbitrary: acc)
  case Nil
  then show ?case by simp
next
  case (Cons a xs)
  from Cons.IH[of "if contains a acc then acc else acc @ [a]"]
  show ?case by (auto split: if_splits)
qed

lemma frozenset_foldl_keeps:
  "contains y acc \<Longrightarrow> contains y (foldl (\<lambda>acc x. if contains x acc then acc else acc @ [x]) acc xs)"
proof (induction xs arbitrary: acc)
  case Nil
  then show ?case by simp
next
  case (Cons a xs)
  have "contains y (if contains a acc then acc else acc @ [a])"
    using Cons.prems by (auto simp: contains_def list_ex_iff)
  from Cons.IH[OF this] show ?case by simp
qed

lemma frozenset_foldl_covers:
  "y \<in> set xs \<Longrightarrow> contains y (foldl (\<lambda>acc x. if contains x acc then acc else acc @ [x]) acc xs)"
proof (induction xs arbitrary: acc)
  case Nil
  then show ?case by simp
next
  case (Cons a xs)
  show ?case
  proof (cases "y = a")
    case True
    have "contains y (if contains a acc then acc else acc @ [a])"
      using True py_eq_refl[of a] by (auto simp: contains_def list_ex_iff)
    from frozenset_foldl_keeps[OF this] show ?thesis by simp
  next
    case False
    with Cons.prems have "y \<in> set xs" by simp
    from Cons.IH[OF this] show ?thesis by simp
  qed
qed

lemma distinct_eq_snoc:
  "distinct_eq (acc @ [x]) = (distinct_eq acc \<and> (\<forall>y\<in>set acc. \<not> py_eq y x))"
  by (induction acc) (auto simp: contains_def list_ex_iff)

lemma frozenset_foldl_distinct:
  "distinct_eq acc \<Longrightarrow> \<forall>x\<in>set acc \<union> set xs. well_formed x
   \<Longrightarrow> distinct_eq (foldl (\<lambda>acc x. if contains x acc then acc else acc @ [x]) acc xs)"
proof (induction xs arbitrary: acc)
  case Nil
  then show ?case by simp
next
  case (Cons a xs)
  have "distinct_eq (if contains a acc then acc else acc @ [a])"
  proof (cases "contains a acc")
    case True
    with Cons.prems(1) show ?thesis by simp
  next
    case False
    have "\<forall>y\<in>set acc. \<not> py_eq y a"
    proof
      fix y assume y: "y \<in> set acc"
      show "\<not> py_eq y a"
      proof
        assume "py_eq y a"
        from py_eq_sym[OF _ _ this] y Cons.prems(2) have "py_eq a y" by simp
        with y False show False by (auto simp: contains_def list_ex_iff)
      qed
    qed
    with False Cons.prems(1) show ?thesis by (simp add: distinct_eq_snoc)
  qed
  moreover have "\<forall>x\<in>set (if contains a acc then acc else acc @ [a]) \<union> set xs. well_formed x"
    using Cons.prems(2) by auto
  ultimately show ?case using Cons.IH by simp
qed

lemma frozenset_subset: "set (frozenset xs) \<subseteq> set xs"
  using frozenset_foldl_set[of "[]" xs] by (simp add: frozenset_def)

lemma frozenset_covers: "y \<in> set xs \<Longrightarrow> contains y (frozenset xs)"
  by (simp add: frozenset_def frozenset_foldl_covers)

lemma frozenset_distinct: "\<forall>x\<in>set xs. well_formed x \<Longrightarrow> distinct_eq (frozenset xs)"
  using frozenset_foldl_distinct[of "[]" xs] by (simp add: frozenset_def)

lemma frozenset_length_le:
  assumes "set xs \<subseteq> set ys" and w: "\<forall>x\<in>set xs \<union> set ys. well_formed x"
  shows "length (frozenset xs) \<le> length (frozenset ys)"
proof -
  let ?a = "frozenset xs" and ?b = "frozenset ys"
  have wa: "\<forall>x\<in>set ?a \<union> set ?b. well_formed x"
    using frozenset_subset[of xs] frozenset_subset[of ys] w by blast
  have d: "distinct_eq ?a" using w by (simp add: frozenset_distinct)
  have c: "\<forall>x\<in>set ?a. \<exists>y\<in>set ?b. py_eq x y"
    using frozenset_subset[of xs] frozenset_covers[of _ ys] assms(1)
    by (auto simp: contains_def list_ex_iff)
  have sym: "\<forall>x\<in>set ?a. \<forall>y\<in>set ?a \<union> set ?b. py_eq x y \<longrightarrow> py_eq y x"
    using py_eq_sym wa by blast
  from eq_injection[OF d c sym]
  obtain f where f: "inj_on f (set ?a)" "f ` set ?a \<subseteq> set ?b" by blast
  have "length ?a = card (set ?a)" using distinct_eq_distinct[OF d] by (simp add: distinct_card)
  also have "\<dots> = card (f ` set ?a)" using f(1) by (simp add: card_image)
  also have "\<dots> \<le> card (set ?b)" using f(2) by (simp add: card_mono)
  also have "\<dots> \<le> length ?b" by (rule card_length)
  finally show ?thesis .
qed

lemma pattern_init_well_formed:
  assumes "\<forall>c\<in>set xs. well_formed c" and "pattern_init xs = Inr p"
  shows "p = Pattern (frozenset xs) \<and> well_formed p"
proof -
  from assms(2) have p: "p = Pattern (frozenset xs)" and t: "\<forall>c\<in>set xs. type_of c = KConc"
    by (auto simp: pattern_init_def list_ex_iff split: if_splits)
  from t assms(1) frozenset_subset[of xs]
  have "\<forall>c\<in>set (frozenset xs). type_of c = KConc \<and> well_formed c" by blast
  with frozenset_distinct[OF assms(1)] p show ?thesis by (simp add: list_all_iff)
qed

text \<open>
  C8: two patterns built by \<^verbatim>\<open>pattern.__init__\<close> from the same concs, in any order
  and with any repetition, compare equal and hash equal. The hash is the one the
  \<^verbatim>\<open>__hash__\<close> methods of pattern, conc, mult, charclass and multiplier compute,
  for any built-in hashes of tuples, frozensets, symbols, booleans and integers. Two
  concs of the same two mults in the two orders are not equal unless the mults are.
\<close>

theorem pattern_unordered_conc_ordered:
  assumes "set xs = set ys" and "\<forall>c\<in>set xs. well_formed c"
    and "pattern_init xs = Inr p" and "pattern_init ys = Inr q"
  shows "py_eq p q \<and> py_hash B p = py_hash B q
         \<and> (\<forall>a b. \<not> py_eq a b \<longrightarrow> \<not> py_eq (Conc [a, b]) (Conc [b, a]))"
proof -
  have wy: "\<forall>c\<in>set ys. well_formed c" using assms(1,2) by simp
  note pw = pattern_init_well_formed[OF assms(2,3)]
  note qw = pattern_init_well_formed[OF wy assms(4)]
  have p: "p = Pattern (frozenset xs)" and wp: "well_formed p"
    using pw by (rule conjunct1, rule conjunct2)
  have q: "q = Pattern (frozenset ys)" and wq: "well_formed q"
    using qw by (rule conjunct1, rule conjunct2)
  have "length (frozenset xs) \<le> length (frozenset ys)"
    using frozenset_length_le[of xs ys] assms(1,2) by simp
  moreover have "length (frozenset ys) \<le> length (frozenset xs)"
    using frozenset_length_le[of ys xs] assms(1,2) by simp
  ultimately have l: "length (frozenset xs) = length (frozenset ys)" by simp
  have c: "\<forall>x\<in>set (frozenset xs). \<exists>y\<in>set (frozenset ys). py_eq x y"
    using frozenset_subset[of xs] frozenset_covers[of _ ys] assms(1)
    by (auto simp: contains_def list_ex_iff)
  from l c have e: "py_eq p q" by (simp add: p q list_all_iff list_ex_iff)
  from py_hash_respects_eq[OF wp wq e] have "py_hash B p = py_hash B q" .
  with e show ?thesis by simp
qed

theorem pattern_unordered_conc_ordered_witness:
  "pattern_init [Conc [Mult (CharclassV (Charclass {CHR ''a''} False)) one_m],
                 Conc [Mult (CharclassV (Charclass {CHR ''b''} False)) star],
                 Conc [Mult (CharclassV (Charclass {CHR ''a''} False)) one_m]]
     = Inr (Pattern [Conc [Mult (CharclassV (Charclass {CHR ''a''} False)) one_m],
                     Conc [Mult (CharclassV (Charclass {CHR ''b''} False)) star]])
   \<and> pattern_init [Conc [Mult (CharclassV (Charclass {CHR ''b''} False)) star],
                   Conc [Mult (CharclassV (Charclass {CHR ''a''} False)) one_m]]
     = Inr (Pattern [Conc [Mult (CharclassV (Charclass {CHR ''b''} False)) star],
                     Conc [Mult (CharclassV (Charclass {CHR ''a''} False)) one_m]])
   \<and> py_eq (Pattern [Conc [Mult (CharclassV (Charclass {CHR ''a''} False)) one_m],
                       Conc [Mult (CharclassV (Charclass {CHR ''b''} False)) star]])
            (Pattern [Conc [Mult (CharclassV (Charclass {CHR ''b''} False)) star],
                      Conc [Mult (CharclassV (Charclass {CHR ''a''} False)) one_m]])
   \<and> py_hash sample_hash
        (Pattern [Conc [Mult (CharclassV (Charclass {CHR ''a''} False)) one_m],
                  Conc [Mult (CharclassV (Charclass {CHR ''b''} False)) star]])
     = py_hash sample_hash
        (Pattern [Conc [Mult (CharclassV (Charclass {CHR ''b''} False)) star],
                  Conc [Mult (CharclassV (Charclass {CHR ''a''} False)) one_m]])
   \<and> py_hash sample_hash
        (Pattern [Conc [Mult (CharclassV (Charclass {CHR ''a''} False)) one_m],
                  Conc [Mult (CharclassV (Charclass {CHR ''b''} False)) star]]) = 3025664
   \<and> \<not> py_eq (Conc [Mult (CharclassV (Charclass {CHR ''a''} False)) one_m,
                        Mult (CharclassV (Charclass {CHR ''b''} False)) star])
              (Conc [Mult (CharclassV (Charclass {CHR ''b''} False)) star,
                     Mult (CharclassV (Charclass {CHR ''a''} False)) one_m])
   \<and> py_hash sample_hash
        (Conc [Mult (CharclassV (Charclass {CHR ''a''} False)) one_m,
               Mult (CharclassV (Charclass {CHR ''b''} False)) star])
     \<noteq> py_hash sample_hash
        (Conc [Mult (CharclassV (Charclass {CHR ''b''} False)) star,
               Mult (CharclassV (Charclass {CHR ''a''} False)) one_m])"
proof -
  let ?a = "Mult (CharclassV (Charclass {CHR ''a''} False)) one_m"
  let ?b = "Mult (CharclassV (Charclass {CHR ''b''} False)) star"
  have s: "set [Conc [?a], Conc [?b], Conc [?a]] = set [Conc [?b], Conc [?a]]" by auto
  have w: "\<forall>c\<in>set [Conc [?a], Conc [?b], Conc [?a]]. well_formed c"
    by (simp add: valid_multiplier_def one_m_def star_def)
  have i1: "pattern_init [Conc [?a], Conc [?b], Conc [?a]] = Inr (Pattern [Conc [?a], Conc [?b]])"
    by (simp add: pattern_init_def frozenset_def contains_def)
  have i2: "pattern_init [Conc [?b], Conc [?a]] = Inr (Pattern [Conc [?b], Conc [?a]])"
    by (simp add: pattern_init_def frozenset_def contains_def)
  have n: "\<not> py_eq ?a ?b" by simp
  have v: "py_hash sample_hash (Pattern [Conc [?a], Conc [?b]]) = 3025664"
    by (simp add: sample_hash_def charclass_hash_def multiplier_hash_def one_m_def star_def)
  have d: "py_hash sample_hash (Conc [?a, ?b]) \<noteq> py_hash sample_hash (Conc [?b, ?a])"
    by (simp add: sample_hash_def charclass_hash_def multiplier_hash_def one_m_def star_def)
  from pattern_unordered_conc_ordered[OF s w i1 i2, of sample_hash] n i1 i2 v d
  show ?thesis by blast
qed

section \<open>Parsing and rendering\<close>

text \<open>
  C10: the parser accepts the empty bracketed class. The interior of the brackets of
  \<^verbatim>\<open>[]\<close> has no range item, \<^verbatim>\<open>parse("[]")\<close> returns the pattern whose one conc
  has one mult with the empty charclass as multiplicand, and \<^verbatim>\<open>regex\<close> of that
  pattern raises \<^verbatim>\<open>NoRegexException\<close>.
\<close>

theorem parse_empty_class_not_renderable:
  "matchRangeInterior ''[]'' 1 [] = ([], 1)
   \<and> pattern_parse 5 ''[]''
       = Some (Inr (Pattern [Conc [Mult (CharclassV (Charclass {} False)) one_m]]))
   \<and> regex (Pattern [Conc [Mult (CharclassV (Charclass {} False)) one_m]])
       = Inl NoRegexException"
  by code_simp


text \<open>
  C2, as stated, fails for the same reason: \<^verbatim>\<open>a{0}\<close> parses, and the parsed
  pattern does not render.
\<close>

theorem parse_zero_multiplier_not_renderable:
  "pattern_parse 5 ''a{0}''
     = Some (Inr (Pattern [Conc [Mult (CharclassV (Charclass {CHR ''a''} False)) zero_m]]))
   \<and> regex (Pattern [Conc [Mult (CharclassV (Charclass {CHR ''a''} False)) zero_m]])
       = Inl NoRegexException"
  by code_simp


section \<open>Intersection\<close>

text \<open>
  C5: \<^verbatim>\<open>pattern.__and__\<close> raises on every conc, whatever the pattern and the
  machines: the bulk-up passes the class \<^verbatim>\<open>conc\<close> to \<^verbatim>\<open>pattern\<close>, whose
  constructor rejects it, where the specification bulks the conc up to a pattern.
\<close>

theorem pattern_and_conc_raises:
  "type_of c = KConc \<Longrightarrow>
     pattern_and fsm_intersection p c = Inl (Exception CantPutInPattern)
     \<and> (\<exists>q. spec_bulk_up c = Inr q \<and> type_of q = KPattern)"
  by (simp add: pattern_and_def pattern_init_def spec_bulk_up_def)

theorem pattern_and_conc_raises_witness:
  "type_of (Conc [Mult (CharclassV (Charclass {CHR ''a''} False)) one_m]) = KConc
   \<and> (\<forall>fsm_intersection.
        pattern_and fsm_intersection
          (Pattern [Conc [Mult (CharclassV (Charclass {CHR ''a''} False)) one_m]])
          (Conc [Mult (CharclassV (Charclass {CHR ''a''} False)) one_m])
        = Inl (Exception CantPutInPattern))
   \<and> spec_bulk_up (Conc [Mult (CharclassV (Charclass {CHR ''a''} False)) one_m])
       = Inr (Pattern [Conc [Mult (CharclassV (Charclass {CHR ''a''} False)) one_m]])"
proof -
  have t: "type_of (Conc [Mult (CharclassV (Charclass {CHR ''a''} False)) one_m]) = KConc"
    by simp
  have b: "spec_bulk_up (Conc [Mult (CharclassV (Charclass {CHR ''a''} False)) one_m])
       = Inr (Pattern [Conc [Mult (CharclassV (Charclass {CHR ''a''} False)) one_m]])"
    by (simp add: spec_bulk_up_def pattern_init_def frozenset_def contains_def)
  from pattern_and_conc_raises [OF t] t b show ?thesis by simp
qed

section \<open>Reduction and its fixed points\<close>





















text \<open>
  \<^verbatim>\<open>reduce\<close> returns on every charclass, on every mult of a charclass, and on every
  conc of such mults: a mult gives \<^verbatim>\<open>charclass()\<close> for the multiplier \<open>{0}\<close>, its
  multiplicand for the multiplier \<open>{1}\<close> and itself otherwise; a conc with a mult
  reduced to \<^verbatim>\<open>charclass()\<close> gives \<^verbatim>\<open>charclass()\<close>, and otherwise each call
  merges two neighbours with the same multiplicand, so that the number of mults plus
  two is fuel enough.
\<close>

lemma reduce_returns_on_charclass:
  "reduce fsm (Suc n) (CharclassV c) = Some (Inr (CharclassV c))"
  by (simp add: reduce_body_def)






lemma tuple_eq_refl: "tuple_eq xs xs"
  using tuple_eq_refl_aux py_eq_refl by blast






end
